theory Spec2Isabelle
  imports Main
begin

section \<open>Platform Resolver\<close>

text \<open>
  \<^verbatim>\<open>getPlatformTarget\<close> of \<^verbatim>\<open>src/extension.ts\<close> reads \<^verbatim>\<open>process.platform\<close> and
  \<^verbatim>\<open>process.arch\<close>; here they are the two arguments. The \<^verbatim>\<open>throw\<close> of the last line is
  the \<open>Inl\<close> branch, carrying the two strings of the message
  \<^verbatim>\<open>Unsupported platform: ${platform}-${arch}\<close>.
\<close>

datatype platform_error = UnsupportedPlatform string string

definition getPlatformTarget :: "string \<Rightarrow> string \<Rightarrow> platform_error + string" where
  "getPlatformTarget platform arch =
     (if platform = ''darwin'' then
        Inr (if arch = ''arm64'' then ''darwin-arm64'' else ''darwin-x64'')
      else if platform = ''linux'' then Inr ''linux-x64''
      else if platform = ''win32'' then Inr ''win32-x64''
      else Inl (UnsupportedPlatform platform arch))"

definition canonical_targets :: "string set" where
  "canonical_targets = {''darwin-arm64'', ''darwin-x64'', ''linux-x64'', ''win32-x64''}"

text \<open>
  The supported combinations as the specification names them: the pairs that the four
  canonical targets spell out. This definition follows the specification, not the code.
\<close>

definition spec_supported_pair :: "string \<Rightarrow> string \<Rightarrow> bool" where
  "spec_supported_pair platform arch \<longleftrightarrow>
     (platform, arch) \<in> {(''darwin'', ''arm64''), (''darwin'', ''x64''),
                         (''linux'', ''x64''), (''win32'', ''x64'')}"

section \<open>Binary Locator\<close>

text \<open>
  \<^verbatim>\<open>findServerBinary\<close> reads the option \<^verbatim>\<open>elm-lsp.server.path\<close>, the file system
  (\<^verbatim>\<open>fs.existsSync\<close>), the two directories of the extension context and, through
  \<^verbatim>\<open>BINARY_NAME\<close>, the platform. \<^verbatim>\<open>path.join\<close> and \<^verbatim>\<open>fs.existsSync\<close> belong to Node and
  are parameters. The result \<open>None\<close> is \<^verbatim>\<open>undefined\<close>.
\<close>

record extension_context =
  globalStoragePath :: string
  extensionPath :: string

definition BINARY_NAME :: "string \<Rightarrow> string" where
  "BINARY_NAME platform = (if platform = ''win32'' then ''elm_lsp.exe'' else ''elm_lsp'')"

text \<open>The \<^verbatim>\<open>for (const devPath of devPaths)\<close> loop: the first candidate that exists.\<close>

fun first_existing :: "(string \<Rightarrow> bool) \<Rightarrow> string list \<Rightarrow> string option" where
  "first_existing existsSync [] = None"
| "first_existing existsSync (devPath # rest) =
     (if existsSync devPath then Some devPath else first_existing existsSync rest)"

text \<open>A JavaScript string is truthy when it is defined and not empty.\<close>

fun truthy_string :: "string option \<Rightarrow> bool" where
  "truthy_string None = False"
| "truthy_string (Some s) = (s \<noteq> [])"

definition devPaths :: "(string list \<Rightarrow> string) \<Rightarrow> extension_context \<Rightarrow> string list" where
  "devPaths join context =
     [join [extensionPath context, ''..'', ''elm-lsp-rust'', ''target'', ''release'', ''elm_lsp''],
      join [extensionPath context, ''..'', ''elm-lsp-rust'', ''target'', ''debug'', ''elm_lsp'']]"

definition findServerBinary ::
  "(string list \<Rightarrow> string) \<Rightarrow> (string \<Rightarrow> bool) \<Rightarrow> string \<Rightarrow> string option \<Rightarrow>
   extension_context \<Rightarrow> string option" where
  "findServerBinary join existsSync platform configPath context =
     (if truthy_string configPath \<and> existsSync (the configPath) then configPath
      else
        let downloadedBinary = join [globalStoragePath context, BINARY_NAME platform]
        in if existsSync downloadedBinary then Some downloadedBinary
           else first_existing existsSync (devPaths join context))"

text \<open>A sample \<^verbatim>\<open>path.join\<close> for the examples: the segments with a slash between them.\<close>

fun join_slash :: "string list \<Rightarrow> string" where
  "join_slash [] = ''.''"
| "join_slash [s] = s"
| "join_slash (s # rest) = s @ ''/'' @ join_slash rest"

section \<open>Binary Installer: the download\<close>

text \<open>
  \<^verbatim>\<open>downloadFile(url, dest)\<close>. The file system is a map from paths to contents, and the
  remote side is a function from the argument of \<^verbatim>\<open>https.get\<close> to what the request meets:
  \<^item> \<open>RequestError err\<close>: the request emits \<^verbatim>\<open>'error'\<close> and no response arrives;
  \<^item> \<open>Response statusCode location body\<close>: a response with its status code, its
    \<^verbatim>\<open>Location\<close> header and a body that arrives whole;
  \<^item> \<open>BodyAborted received request_error\<close>: a response with status 200 whose body stops
    after the bytes \<open>received\<close>; \<open>request_error\<close> is the error that the request emits
    then, if it emits one.
  The argument of \<^verbatim>\<open>https.get\<close> is optional because \<^verbatim>\<open>request(res.headers.location!)\<close>
  passes \<^verbatim>\<open>undefined\<close> on when a redirect has no \<^verbatim>\<open>Location\<close> header.

  \<^verbatim>\<open>fs.createWriteStream(dest)\<close> opens the destination for writing before the first request
  is sent, which creates the file, or empties the one already there. \<^verbatim>\<open>fs.unlink(dest, ...)\<close>
  is asynchronous and \<^verbatim>\<open>reject(err)\<close> follows it at once: the result holds the file system
  as it is when the promise settles and, apart, the paths whose removal has been asked
  for; \<open>after_unlinks\<close> is the file system once those removals are done.

  The inner function \<^verbatim>\<open>request\<close> calls itself on every 301 or 302 with no bound, so it is a
  partial function: \<open>None\<close> is a chain of redirects that never ends. \<open>Unsettled\<close> is
  a promise that is neither resolved nor rejected when nothing is left to happen.
\<close>

type_synonym filesystem = "string \<rightharpoonup> string"

datatype http_reply =
    RequestError string
  | Response nat "string option" string
  | BodyAborted string "string option"

datatype download_error = DownloadFailed nat | TransportError string

datatype download_outcome = Resolved | Rejected download_error | Unsettled

partial_function (option) request ::
  "(string option \<Rightarrow> http_reply) \<Rightarrow> string \<Rightarrow> filesystem \<Rightarrow> string option \<Rightarrow>
   (download_outcome \<times> filesystem \<times> string list) option"
where
  "request https_get dest files url =
     (case https_get url of
        RequestError err \<Rightarrow> Some (Rejected (TransportError err), files, [dest])
      | Response statusCode location body \<Rightarrow>
          if statusCode = 302 \<or> statusCode = 301 then request https_get dest files location
          else if statusCode \<noteq> 200 then Some (Rejected (DownloadFailed statusCode), files, [])
          else Some (Resolved, files(dest \<mapsto> body), [])
      | BodyAborted received request_error \<Rightarrow>
          (case request_error of
             None \<Rightarrow> Some (Unsettled, files(dest \<mapsto> received), [])
           | Some err \<Rightarrow> Some (Rejected (TransportError err), files(dest \<mapsto> received), [dest])))"

definition downloadFile ::
  "(string option \<Rightarrow> http_reply) \<Rightarrow> string \<Rightarrow> string \<Rightarrow> filesystem \<Rightarrow>
   (download_outcome \<times> filesystem \<times> string list) option"
where
  "downloadFile https_get url dest files = request https_get dest (files(dest \<mapsto> [])) (Some url)"

definition after_unlinks :: "filesystem \<Rightarrow> string list \<Rightarrow> filesystem" where
  "after_unlinks files paths = foldl (\<lambda>fs path. fs(path := None)) files paths"

text \<open>
  A sample remote side: two redirects, then the body; any other URL, and a request
  without URL, does not resolve.
\<close>

definition sample_remote :: "string option \<Rightarrow> http_reply" where
  "sample_remote url =
     (if url = Some ''https://github.example/latest'' then
        Response 302 (Some ''https://github.example/v1/elm_lsp'') []
      else if url = Some ''https://github.example/v1/elm_lsp'' then
        Response 301 (Some ''https://cdn.example/elm_lsp'') []
      else if url = Some ''https://cdn.example/elm_lsp'' then Response 200 None ''ELF''
      else RequestError ''ENOTFOUND'')"

section \<open>Server Supervisor: the restart command\<close>

text \<open>
  The handler of \<^verbatim>\<open>elm-lsp.restartServer\<close> is an \<^verbatim>\<open>async\<close> function: it runs until an
  \<^verbatim>\<open>await\<close>, is suspended there, and goes on when the awaited promise settles. Between the
  two, other invocations of the command may run. The model is a machine whose steps are
  those pieces of the handler: an invocation runs the handler up to its first \<^verbatim>\<open>await\<close>,
  and a settled promise resumes a suspended invocation up to its next \<^verbatim>\<open>await\<close> or its
  return.

  The state holds the two globals \<^verbatim>\<open>isRestarting\<close> and \<^verbatim>\<open>client\<close> (clients are numbered in
  the order of their creation), the set \<open>live\<close> of the clients whose connection is up
  (from \<^verbatim>\<open>new LanguageClient\<close> followed by \<^verbatim>\<open>start()\<close>, until \<^verbatim>\<open>stop()\<close> succeeds or
  \<^verbatim>\<open>start()\<close> fails), the messages shown, the calls made, and the suspended invocations.
\<close>

datatype 'a awaited = Rejects string | Resolves 'a

datatype continuation = AwaitStop nat | AwaitFind | AwaitStart nat

datatype api_call = Stop nat | FindServerBinary | Start nat string

record supervisor =
  isRestarting :: bool
  client :: "nat option"
  live :: "nat set"
  created :: nat
  notices :: "string list"
  calls :: "api_call list"
  pending :: "continuation list"

datatype event = Invoke | Resume nat "string option awaited"

text \<open>The \<^verbatim>\<open>finally\<close> block, after which the handler returns.\<close>

definition finally_block :: "supervisor \<Rightarrow> supervisor" where
  "finally_block s = s\<lparr>isRestarting := False\<rparr>"

text \<open>\<^verbatim>\<open>const newPath = await findServerBinary(context)\<close>: the call, then the suspension.\<close>

definition call_findServerBinary :: "supervisor \<Rightarrow> supervisor" where
  "call_findServerBinary s =
     s\<lparr>calls := calls s @ [FindServerBinary], pending := pending s @ [AwaitFind]\<rparr>"

text \<open>
  \<^verbatim>\<open>startLanguageClient(context, newPath)\<close> up to \<^verbatim>\<open>await client.start()\<close>: the global
  \<^verbatim>\<open>client\<close> is assigned the new client before its start is awaited.
\<close>

definition startLanguageClient :: "string \<Rightarrow> supervisor \<Rightarrow> supervisor" where
  "startLanguageClient serverPath s =
     (let c = created s
      in s\<lparr>client := Some c, live := insert c (live s), created := Suc c,
           calls := calls s @ [Start c serverPath], pending := pending s @ [AwaitStart c]\<rparr>)"

text \<open>An invocation of the command, from the guard to the first \<^verbatim>\<open>await\<close>.\<close>

definition restartServer :: "supervisor \<Rightarrow> supervisor" where
  "restartServer s =
     (if isRestarting s then s\<lparr>notices := notices s @ [''Elm LSP is already restarting...'']\<rparr>
      else
        let s1 = s\<lparr>isRestarting := True\<rparr>
        in case client s1 of
             Some c \<Rightarrow> s1\<lparr>calls := calls s1 @ [Stop c], pending := pending s1 @ [AwaitStop c]\<rparr>
           | None \<Rightarrow> call_findServerBinary s1)"

text \<open>
  A suspended invocation goes on when its promise settles. A rejected promise is an
  exception at the \<^verbatim>\<open>await\<close>: control passes to the \<^verbatim>\<open>finally\<close> block. \<^verbatim>\<open>if (newPath)\<close>
  is false for \<^verbatim>\<open>undefined\<close> and for the empty string.
\<close>

fun resume :: "continuation \<Rightarrow> string option awaited \<Rightarrow> supervisor \<Rightarrow> supervisor" where
  "resume (AwaitStop c) (Rejects e) s = finally_block s"
| "resume (AwaitStop c) (Resolves _) s = call_findServerBinary (s\<lparr>live := live s - {c}\<rparr>)"
| "resume AwaitFind (Rejects e) s = finally_block s"
| "resume AwaitFind (Resolves newPath) s =
     (if truthy_string newPath then startLanguageClient (the newPath) s else finally_block s)"
| "resume (AwaitStart c) (Rejects e) s = finally_block (s\<lparr>live := live s - {c}\<rparr>)"
| "resume (AwaitStart c) (Resolves _) s =
     finally_block (s\<lparr>notices := notices s @ [''Elm LSP restarted'']\<rparr>)"

definition step :: "supervisor \<Rightarrow> event \<Rightarrow> supervisor" where
  "step s ev =
     (case ev of
        Invoke \<Rightarrow> restartServer s
      | Resume i settled \<Rightarrow>
          if i < length (pending s) then
            resume (pending s ! i) settled
              (s\<lparr>pending := take i (pending s) @ drop (Suc i) (pending s)\<rparr>)
          else s)"

definition run :: "supervisor \<Rightarrow> event list \<Rightarrow> supervisor" where
  "run s evs = foldl step s evs"

text \<open>
  The command is registered by \<^verbatim>\<open>activate\<close> after the first client has started: one client,
  connected, and no restart under way.
\<close>

definition activated :: supervisor where
  "activated = \<lparr>isRestarting = False, client = Some 0, live = {0}, created = 1,
                notices = [], calls = [], pending = []\<rparr>"

text \<open>What holds of every state the machine reaches, by the shape of the suspended invocations.\<close>

definition supervised :: "supervisor \<Rightarrow> bool" where
  "supervised s \<longleftrightarrow>
     (pending s = [] \<and> \<not> isRestarting s \<and> live s \<subseteq> set_option (client s))
     \<or> (\<exists>c. pending s = [AwaitStop c] \<and> isRestarting s \<and> client s = Some c \<and> live s \<subseteq> {c})
     \<or> (pending s = [AwaitFind] \<and> isRestarting s \<and> live s = {})
     \<or> (\<exists>c. pending s = [AwaitStart c] \<and> isRestarting s \<and> client s = Some c \<and> live s = {c})"

section \<open>The editor and the protocol\<close>

text \<open>
  A \<^verbatim>\<open>vscode.Uri\<close> is used through \<^verbatim>\<open>fsPath\<close> and \<^verbatim>\<open>toString()\<close> only. The requests are the
  three that the rename handler and the code lens provider send with
  \<^verbatim>\<open>client.sendRequest\<close>: \<^verbatim>\<open>workspace/executeCommand\<close> with a command and its arguments,
  \<^verbatim>\<open>textDocument/references\<close> with a document URI, a line, a character and the flag
  \<^verbatim>\<open>includeDeclaration\<close>, and \<^verbatim>\<open>textDocument/documentSymbol\<close> with a document URI.

  The server is a state \<open>'sv\<close> and a function \<open>send\<close> that answers a request in a state
  and gives the next state; an answer is a value of type \<open>awaited\<close>, since
  \<^verbatim>\<open>await client.sendRequest(...)\<close> either throws or returns. The record \<open>editor\<close> is what
  the handlers act on besides their result: the server, the requests sent so far, the
  lines of the output channel (\<open>None\<close> while \<^verbatim>\<open>outputChannel\<close> is \<^verbatim>\<open>undefined\<close>) and the
  warnings shown.
\<close>

record uri =
  fsPath :: string
  uri_toString :: string

record workspace_folder =
  folder_uri :: uri

record text_document =
  languageId :: string
  document_uri :: uri

datatype lsp_request =
    ExecuteCommand string "string list"
  | TextDocumentReferences string nat nat bool
  | TextDocumentDocumentSymbol string

record 'sv editor =
  server :: 'sv
  sent :: "lsp_request list"
  outputChannel :: "string list option"
  warnings :: "string list"

text \<open>\<^verbatim>\<open>outputChannel?.appendLine(line)\<close> and \<^verbatim>\<open>vscode.window.showWarningMessage(message)\<close>.\<close>

definition appendLine :: "string \<Rightarrow> 'sv editor \<Rightarrow> 'sv editor" where
  "appendLine line w = w\<lparr>outputChannel := map_option (\<lambda>lines. lines @ [line]) (outputChannel w)\<rparr>"

definition showWarningMessage :: "string \<Rightarrow> 'sv editor \<Rightarrow> 'sv editor" where
  "showWarningMessage message w = w\<lparr>warnings := warnings w @ [message]\<rparr>"

datatype vs_position = Position nat nat

datatype vs_range = VsRange nat nat nat nat

fun start_line :: "vs_range \<Rightarrow> nat" where
  "start_line (VsRange l c l' c') = l"

fun start_character :: "vs_range \<Rightarrow> nat" where
  "start_character (VsRange l c l' c') = c"

text \<open>The decimal digits of a number, as a template literal \<^verbatim>\<open>${count}\<close> prints it.\<close>

function string_of_nat :: "nat \<Rightarrow> string" where
  "string_of_nat n =
     (if n < 10 then [''0123456789'' ! n]
      else string_of_nat (n div 10) @ [''0123456789'' ! (n mod 10)])"
  by pat_completeness auto
termination
  by (relation "measure id") auto

declare string_of_nat.simps [simp del]

section \<open>Rename Synchronizer\<close>

text \<open>
  The listener of \<^verbatim>\<open>vscode.workspace.onWillRenameFiles\<close>. \<^verbatim>\<open>path.dirname\<close>,
  \<^verbatim>\<open>path.basename\<close> and \<^verbatim>\<open>path.relative\<close> belong to Node and
  \<^verbatim>\<open>vscode.workspace.getWorkspaceFolder\<close> to the editor: they are the fields of the
  environment, with the server's \<open>send\<close> and with \<^verbatim>\<open>vscode.Uri.parse\<close>, which gives
  \<open>Inr\<close> of a URI or \<open>Inl e\<close> when it throws \<open>e\<close>.
\<close>

record rename_pair =
  oldUri :: uri
  newUri :: uri

text \<open>
  An edit of a reply is used through \<^verbatim>\<open>edit.range.start.line\<close>, its three siblings and
  \<^verbatim>\<open>edit.newText\<close>. The reply is untyped (\<^verbatim>\<open>any\<close>): \<open>edit_range\<close> is \<open>Inr\<close> of the
  range that \<^verbatim>\<open>new vscode.Range(...)\<close> builds from the four numbers, or \<open>Inl e\<close> when
  reading them or building the range throws \<open>e\<close> (an edit without a range, say).
\<close>

record server_edit =
  edit_range :: "string + vs_range"
  newText :: string

record command_result =
  success :: bool
  changes :: "(string \<times> server_edit list) list option"
  oldModuleName :: string
  newModuleName :: string
  filesUpdated :: nat
  error :: "string option"

record 'sv rename_env =
  dirname :: "string \<Rightarrow> string"
  basename :: "string \<Rightarrow> string"
  relative :: "string \<Rightarrow> string \<Rightarrow> string"
  getWorkspaceFolder :: "uri \<Rightarrow> workspace_folder option"
  parseUri :: "string \<Rightarrow> string + uri"
  sendRequest :: "'sv \<Rightarrow> lsp_request \<Rightarrow> command_result option awaited \<times> 'sv"

text \<open>\<^verbatim>\<open>String.prototype.endsWith\<close>.\<close>

definition endsWith :: "string \<Rightarrow> string \<Rightarrow> bool" where
  "endsWith s suffix \<longleftrightarrow>
     length suffix \<le> length s \<and> drop (length s - length suffix) s = suffix"

text \<open>The predicate of \<^verbatim>\<open>event.files.filter\<close>.\<close>

definition is_elm_pair :: "rename_pair \<Rightarrow> bool" where
  "is_elm_pair f \<longleftrightarrow> endsWith (fsPath (oldUri f)) ''.elm'' \<and> endsWith (fsPath (newUri f)) ''.elm''"

text \<open>The request that the body of the loop builds for one pair.\<close>

definition pair_request :: "'sv rename_env \<Rightarrow> rename_pair \<Rightarrow> lsp_request" where
  "pair_request env file =
     (let oldDir = dirname env (fsPath (oldUri file));
          newDir = dirname env (fsPath (newUri file));
          newName = basename env (fsPath (newUri file))
      in if oldDir = newDir then
           ExecuteCommand ''elm.renameFile'' [uri_toString (oldUri file), newName]
         else
           let relativePath =
                 (case getWorkspaceFolder env (oldUri file) of
                    Some workspaceFolder \<Rightarrow>
                      relative env (fsPath (folder_uri workspaceFolder)) (fsPath (newUri file))
                  | None \<Rightarrow> fsPath (newUri file))
           in ExecuteCommand ''elm.moveFile'' [uri_toString (oldUri file), relativePath])"

text \<open>
  A workspace edit is the list of the replacements that
  \<^verbatim>\<open>workspaceEdit.replace(uri, range, edit.newText)\<close> has added to it. The two loops over the
  changes of a result run inside the \<^verbatim>\<open>try\<close>: when \<^verbatim>\<open>vscode.Uri.parse\<close> or the reading of
  an edit throws, the loops stop, the replacements added so far stay in the workspace
  edit, and the exception goes to the \<^verbatim>\<open>catch\<close>. The second component of the results
  below is that exception, if there is one.
\<close>

type_synonym workspace_edit = "(uri \<times> vs_range \<times> string) list"

text \<open>\<^verbatim>\<open>for (const edit of edits as any[])\<close>.\<close>

fun replace_edits :: "uri \<Rightarrow> server_edit list \<Rightarrow> workspace_edit \<Rightarrow> workspace_edit \<times> string option" where
  "replace_edits u [] workspaceEdit = (workspaceEdit, None)"
| "replace_edits u (edit # edits) workspaceEdit =
     (case edit_range edit of
        Inl e \<Rightarrow> (workspaceEdit, Some e)
      | Inr rng \<Rightarrow> replace_edits u edits (workspaceEdit @ [(u, rng, newText edit)]))"

text \<open>\<^verbatim>\<open>for (const [uriStr, edits] of Object.entries(result.changes))\<close>.\<close>

fun add_changes ::
  "(string \<Rightarrow> string + uri) \<Rightarrow> (string \<times> server_edit list) list \<Rightarrow> workspace_edit \<Rightarrow>
   workspace_edit \<times> string option"
where
  "add_changes parse [] workspaceEdit = (workspaceEdit, None)"
| "add_changes parse ((uriStr, edits) # entries) workspaceEdit =
     (case parse uriStr of
        Inl e \<Rightarrow> (workspaceEdit, Some e)
      | Inr u \<Rightarrow>
          (case replace_edits u edits workspaceEdit of
             (workspaceEdit', Some e) \<Rightarrow> (workspaceEdit', Some e)
           | (workspaceEdit', None) \<Rightarrow> add_changes parse entries workspaceEdit'))"

text \<open>
  \<^verbatim>\<open>if (result?.success && result?.changes) { ... }\<close>; \<open>None\<close> is a result that is
  \<^verbatim>\<open>null\<close> or \<^verbatim>\<open>undefined\<close>.
\<close>

definition add_result_edits ::
  "(string \<Rightarrow> string + uri) \<Rightarrow> command_result option \<Rightarrow> workspace_edit \<Rightarrow>
   workspace_edit \<times> string option"
where
  "add_result_edits parse result workspaceEdit =
     (case result of
        None \<Rightarrow> (workspaceEdit, None)
      | Some r \<Rightarrow>
          if success r then
            (case changes r of
               None \<Rightarrow> (workspaceEdit, None)
             | Some entries \<Rightarrow> add_changes parse entries workspaceEdit)
          else (workspaceEdit, None))"

text \<open>
  The log line of a success, or the warning of a failure that carries a message. The arrow
  of the log line is the three bytes of its UTF-8 encoding.
\<close>

definition report_result :: "command_result option \<Rightarrow> 'sv editor \<Rightarrow> 'sv editor" where
  "report_result result w =
     (case result of
        None \<Rightarrow> w
      | Some r \<Rightarrow>
          if success r then
            appendLine (''Elm: '' @ oldModuleName r @ '' '' @ [CHR 0xE2, CHR 0x86, CHR 0x92] @ '' ''
              @ newModuleName r @ '' ('' @ string_of_nat (filesUpdated r) @ '' files updated)'') w
          else if truthy_string (error r) then
            showWarningMessage (''Elm move/rename: '' @ the (error r)) w
          else w)"

text \<open>One turn of the loop: the request, then the \<^verbatim>\<open>try\<close> body or the \<^verbatim>\<open>catch\<close>.\<close>

definition process_pair ::
  "'sv rename_env \<Rightarrow> workspace_edit \<times> 'sv editor \<Rightarrow> rename_pair \<Rightarrow> workspace_edit \<times> 'sv editor"
where
  "process_pair env acc file =
     (case acc of (workspaceEdit, w) \<Rightarrow>
        let req = pair_request env file
        in case sendRequest env (server w) req of (reply, sv) \<Rightarrow>
          let w1 = w\<lparr>server := sv, sent := sent w @ [req]\<rparr>
          in case reply of
               Rejects e \<Rightarrow> (workspaceEdit, appendLine (''Elm file rename error: '' @ e) w1)
             | Resolves result \<Rightarrow>
                 (case add_result_edits (parseUri env) result workspaceEdit of
                    (workspaceEdit', Some e) \<Rightarrow>
                      (workspaceEdit', appendLine (''Elm file rename error: '' @ e) w1)
                  | (workspaceEdit', None) \<Rightarrow> (workspaceEdit', report_result result w1)))"

text \<open>
  The listener. Its result is the workspace edit given to \<^verbatim>\<open>event.waitUntil\<close>, which the
  editor applies when the promise resolves, or \<open>None\<close> when the listener returns without
  calling \<^verbatim>\<open>waitUntil\<close>.
\<close>

definition onWillRenameFiles ::
  "'sv rename_env \<Rightarrow> 'c option \<Rightarrow> 'sv editor \<Rightarrow> rename_pair list \<Rightarrow> workspace_edit option \<times> 'sv editor"
where
  "onWillRenameFiles env client_now w files =
     (let elmFiles = filter is_elm_pair files
      in if elmFiles = [] \<or> client_now = None then (None, w)
         else case foldl (process_pair env) ([], w) elmFiles of
                (workspaceEdit, w') \<Rightarrow> (Some workspaceEdit, w'))"

text \<open>The answers that the server gives to a sequence of requests, one after the other.\<close>

fun server_replies :: "('sv \<Rightarrow> lsp_request \<Rightarrow> 'r \<times> 'sv) \<Rightarrow> 'sv \<Rightarrow> lsp_request list \<Rightarrow> 'r list" where
  "server_replies send sv [] = []"
| "server_replies send sv (req # reqs) =
     (case send sv req of (reply, sv') \<Rightarrow> reply # server_replies send sv' reqs)"

text \<open>
  What the description of the synchronizer says of one reply, stated apart from the code
  (the definitions named \<open>spec_...\<close>; the theorems compare the listener with them).
  A reply carries changes when it is a result with the success flag and a mapping from
  file identifiers to lists of edits. Handling them is a sequence of steps: for each entry
  of the mapping, in order, the parsing of the file identifier, then one step for each
  edit of the entry. A step throws or it does not; the steps before the first one that
  throws take place, and the edits among them are the edits kept from the reply. The
  error of a reply is the exception of the request, or that of the first step that throws.
\<close>

definition spec_reply_changes :: "command_result option awaited \<Rightarrow> (string \<times> server_edit list) list" where
  "spec_reply_changes reply =
     (case reply of
        Rejects e \<Rightarrow> []
      | Resolves None \<Rightarrow> []
      | Resolves (Some r) \<Rightarrow>
          if success r then (case changes r of None \<Rightarrow> [] | Some entries \<Rightarrow> entries) else [])"

definition spec_change_steps :: "(string \<times> server_edit list) list \<Rightarrow> (string \<times> server_edit option) list" where
  "spec_change_steps entries =
     concat (map (\<lambda>(uriStr, edits). (uriStr, None) # map (\<lambda>edit. (uriStr, Some edit)) edits) entries)"

fun spec_step_throws :: "(string \<Rightarrow> string + uri) \<Rightarrow> string \<times> server_edit option \<Rightarrow> string option" where
  "spec_step_throws parse (uriStr, None) = (case parse uriStr of Inl e \<Rightarrow> Some e | Inr u \<Rightarrow> None)"
| "spec_step_throws parse (uriStr, Some edit) = (case edit_range edit of Inl e \<Rightarrow> Some e | Inr rng \<Rightarrow> None)"

fun spec_step_edit :: "(string \<Rightarrow> string + uri) \<Rightarrow> string \<times> server_edit option \<Rightarrow> workspace_edit" where
  "spec_step_edit parse (uriStr, None) = []"
| "spec_step_edit parse (uriStr, Some edit) =
     (case parse uriStr of
        Inl e \<Rightarrow> []
      | Inr u \<Rightarrow> (case edit_range edit of Inl e \<Rightarrow> [] | Inr rng \<Rightarrow> [(u, rng, newText edit)]))"

definition spec_kept_edits :: "(string \<Rightarrow> string + uri) \<Rightarrow> command_result option awaited \<Rightarrow> workspace_edit" where
  "spec_kept_edits parse reply =
     concat (map (spec_step_edit parse)
       (takeWhile (\<lambda>st. spec_step_throws parse st = None) (spec_change_steps (spec_reply_changes reply))))"

definition spec_reply_error :: "(string \<Rightarrow> string + uri) \<Rightarrow> command_result option awaited \<Rightarrow> string option" where
  "spec_reply_error parse reply =
     (case reply of
        Rejects e \<Rightarrow> Some e
      | Resolves result \<Rightarrow>
          (case dropWhile (\<lambda>st. spec_step_throws parse st = None) (spec_change_steps (spec_reply_changes reply)) of
             [] \<Rightarrow> None
           | st # rest \<Rightarrow> spec_step_throws parse st))"

text \<open>A reply none of whose steps throws.\<close>

definition spec_well_formed_reply :: "(string \<Rightarrow> string + uri) \<Rightarrow> command_result option awaited \<Rightarrow> bool" where
  "spec_well_formed_reply parse reply \<longleftrightarrow>
     (\<forall>(uriStr, edits) \<in> set (spec_reply_changes reply).
        \<not> isl (parse uriStr) \<and> (\<forall>edit \<in> set edits. \<not> isl (edit_range edit)))"

text \<open>
  Sample path functions for the examples, right on absolute, normalised POSIX paths and,
  for \<open>sample_relative\<close>, on a target that lies under the folder.
\<close>

definition sample_dirname :: "string \<Rightarrow> string" where
  "sample_dirname p = rev (tl (dropWhile (\<lambda>c. c \<noteq> CHR ''/'') (rev p)))"

definition sample_basename :: "string \<Rightarrow> string" where
  "sample_basename p = rev (takeWhile (\<lambda>c. c \<noteq> CHR ''/'') (rev p))"

definition sample_relative :: "string \<Rightarrow> string \<Rightarrow> string" where
  "sample_relative folder p =
     (if take (length folder + 1) p = folder @ ''/'' then drop (length folder + 1) p else p)"

section \<open>Reference Annotator\<close>

text \<open>
  A \<^verbatim>\<open>vscode.CodeLens\<close> is a range and a command that is absent until the lens is
  resolved; a command is a title, a command identifier and its arguments, here absent or
  the pair of a URI and a position.
\<close>

record lens_command =
  title :: string
  command :: string
  arguments :: "(uri \<times> vs_position) option"

record code_lens =
  lens_range :: vs_range
  lens_command :: "lens_command option"

definition empty_command :: lens_command where
  "empty_command = \<lparr>title = [], command = [], arguments = None\<rparr>"

text \<open>
  \<^verbatim>\<open>resolveCodeLens(codeLens)\<close>. The reply to \<^verbatim>\<open>textDocument/references\<close> is a list of
  locations or \<^verbatim>\<open>null\<close>.
\<close>

definition resolveCodeLens ::
  "('sv \<Rightarrow> lsp_request \<Rightarrow> 'loc list option awaited \<times> 'sv) \<Rightarrow> 'c option \<Rightarrow> text_document option \<Rightarrow>
   code_lens \<Rightarrow> 'sv editor \<Rightarrow> code_lens \<times> 'sv editor"
where
  "resolveCodeLens send client_now activeDocument codeLens w =
     (if client_now = None then (codeLens\<lparr>lens_command := Some empty_command\<rparr>, w)
      else case activeDocument of
        None \<Rightarrow> (codeLens\<lparr>lens_command := Some empty_command\<rparr>, w)
      | Some document \<Rightarrow>
          let req = TextDocumentReferences (uri_toString (document_uri document))
                      (start_line (lens_range codeLens)) (start_character (lens_range codeLens)) False
          in case send (server w) req of (reply, sv) \<Rightarrow>
            let w1 = w\<lparr>server := sv, sent := sent w @ [req]\<rparr>
            in case reply of
                 Rejects e \<Rightarrow> (codeLens\<lparr>lens_command := Some empty_command\<rparr>, w1)
               | Resolves references \<Rightarrow>
                   let count = (case references of None \<Rightarrow> 0 | Some locations \<Rightarrow> length locations);
                       title = (if count = 1 then ''1 reference''
                                else string_of_nat count @ '' references'')
                   in (codeLens\<lparr>lens_command := Some
                         \<lparr>title = title,
                          command = (if count > 0 then ''editor.action.findReferences'' else []),
                          arguments =
                            (if count > 0 then
                               Some (document_uri document,
                                     Position (start_line (lens_range codeLens))
                                       (start_character (lens_range codeLens)))
                             else None)\<rparr>\<rparr>, w1))"

text \<open>
  \<^verbatim>\<open>provideCodeLenses(document)\<close>. The reply to \<^verbatim>\<open>textDocument/documentSymbol\<close> is untyped:
  \<^item> \<open>NoResponse\<close>: a falsy reply;
  \<^item> \<open>FlatSymbols symbols\<close>: an array whose first entry has a \<^verbatim>\<open>location\<close>, the flat
    format; \<open>location_range\<close> is \<open>Inr\<close> of the range built from
    \<^verbatim>\<open>symbol.location.range\<close>, or \<open>Inl e\<close> when reading it throws \<open>e\<close> (only the first
    entry has been tested for a \<^verbatim>\<open>location\<close>);
  \<^item> \<open>NonObjectArray e\<close>: an array whose first entry is not an object, on which
    \<^verbatim>\<open>'location' in response[0]\<close> throws \<open>e\<close>;
  \<^item> \<open>OtherResponse\<close>: any other reply, for which the test of the flat format is false.
  The kinds are the numbers of \<^verbatim>\<open>vscode.SymbolKind\<close>. An exception anywhere in the \<^verbatim>\<open>try\<close>
  is logged and gives no lens at all.
\<close>

record symbol_info =
  symbol_name :: string
  symbol_kind :: nat
  location_uri :: string
  location_range :: "string + vs_range"

datatype symbol_response =
  NoResponse | FlatSymbols "symbol_info list" | NonObjectArray string | OtherResponse

definition annotated_kinds :: "nat set" where
  "annotated_kinds = {11, 4, 22, 9, 10}"

text \<open>\<^verbatim>\<open>for (const symbol of symbols)\<close>; the second component is the exception, if any.\<close>

fun symbol_lenses :: "symbol_info list \<Rightarrow> code_lens list \<Rightarrow> code_lens list \<times> string option" where
  "symbol_lenses [] codeLenses = (codeLenses, None)"
| "symbol_lenses (symbol # symbols) codeLenses =
     (if symbol_kind symbol \<in> annotated_kinds then
        (case location_range symbol of
           Inl e \<Rightarrow> (codeLenses, Some e)
         | Inr rng \<Rightarrow>
             symbol_lenses symbols (codeLenses @ [\<lparr>lens_range = rng, lens_command = None\<rparr>]))
      else symbol_lenses symbols codeLenses)"

definition provideCodeLenses ::
  "('sv \<Rightarrow> lsp_request \<Rightarrow> symbol_response awaited \<times> 'sv) \<Rightarrow> 'c option \<Rightarrow> bool \<Rightarrow>
   text_document \<Rightarrow> 'sv editor \<Rightarrow> code_lens list \<times> 'sv editor"
where
  "provideCodeLenses send client_now codeLens_references document w =
     (if client_now = None \<or> languageId document \<noteq> ''elm'' then ([], w)
      else if \<not> codeLens_references then ([], w)
      else
        let req = TextDocumentDocumentSymbol (uri_toString (document_uri document))
        in case send (server w) req of (reply, sv) \<Rightarrow>
          let w1 = w\<lparr>server := sv, sent := sent w @ [req]\<rparr>
          in case reply of
               Rejects e \<Rightarrow> ([], appendLine (''CodeLens error: '' @ e) w1)
             | Resolves response \<Rightarrow>
                 (case response of
                    NoResponse \<Rightarrow> ([], w1)
                  | FlatSymbols symbols \<Rightarrow>
                      (case symbol_lenses symbols [] of
                         (codeLenses, None) \<Rightarrow> (codeLenses, w1)
                       | (codeLenses, Some e) \<Rightarrow> ([], appendLine (''CodeLens error: '' @ e) w1))
                  | NonObjectArray e \<Rightarrow> ([], appendLine (''CodeLens error: '' @ e) w1)
                  | OtherResponse \<Rightarrow> ([], w1)))"

text \<open>
  The value of a string of decimal digits, to say of \<open>string_of_nat\<close> that it prints its
  argument.
\<close>

definition digit_value :: "char \<Rightarrow> nat" where
  "digit_value c = of_char c - 48"

definition decimal_value :: "string \<Rightarrow> nat" where
  "decimal_value digits = foldl (\<lambda>acc c. 10 * acc + digit_value c) 0 digits"

section \<open>A sample workspace\<close>

text \<open>
  The workspace of the examples: the folder \<^verbatim>\<open>/proj\<close>, a batch of four renamed files, a
  server that fails on every \<^verbatim>\<open>elm.renameFile\<close> and answers every \<^verbatim>\<open>elm.moveFile\<close> with
  one edit, except for the file \<^verbatim>\<open>Draft.elm\<close>, where the second edit of the reply has no
  range; a server that answers \<^verbatim>\<open>textDocument/references\<close> with as many locations as
  its state says, and one that fails on every request.
\<close>

definition file_uri :: "string \<Rightarrow> uri" where
  "file_uri p = \<lparr>fsPath = p, uri_toString = ''file://'' @ p\<rparr>"

definition sample_result :: command_result where
  "sample_result =
     \<lparr>success = True,
      changes = Some [(''file:///proj/src/Main.elm'',
                       [\<lparr>edit_range = Inr (VsRange 2 7 2 10), newText = ''Sub.Foo''\<rparr>])],
      oldModuleName = ''Foo'', newModuleName = ''Sub.Foo'', filesUpdated = 1, error = None\<rparr>"

definition sample_broken_result :: command_result where
  "sample_broken_result =
     \<lparr>success = True,
      changes = Some [(''file:///proj/src/Main.elm'',
                       [\<lparr>edit_range = Inr (VsRange 4 7 4 12), newText = ''Draft''\<rparr>,
                        \<lparr>edit_range = Inl ''TypeError: edit.range is undefined'', newText = ''Draft''\<rparr>,
                        \<lparr>edit_range = Inr (VsRange 9 0 9 5), newText = ''Draft''\<rparr>]),
                      (''file:///proj/src/Page.elm'',
                       [\<lparr>edit_range = Inr (VsRange 1 7 1 12), newText = ''Draft''\<rparr>])],
      oldModuleName = ''Draft'', newModuleName = ''Draft'', filesUpdated = 2, error = None\<rparr>"

definition sample_server :: "unit \<Rightarrow> lsp_request \<Rightarrow> command_result option awaited \<times> unit" where
  "sample_server sv req =
     (case req of
        ExecuteCommand cmd args \<Rightarrow>
          if cmd = ''elm.moveFile'' then
            (if hd args = ''file:///tmp/Draft.elm'' then (Resolves (Some sample_broken_result), sv)
             else (Resolves (Some sample_result), sv))
          else (Rejects ''Error: server busy'', sv)
      | _ \<Rightarrow> (Resolves None, sv))"

definition sample_parse :: "string \<Rightarrow> string + uri" where
  "sample_parse uriStr =
     (if take 7 uriStr = ''file://'' then Inr \<lparr>fsPath = drop 7 uriStr, uri_toString = uriStr\<rparr>
      else Inl ''Error: not a file URI'')"

definition sample_env :: "unit rename_env" where
  "sample_env =
     \<lparr>dirname = sample_dirname, basename = sample_basename, relative = sample_relative,
      getWorkspaceFolder =
        (\<lambda>u. if take 6 (fsPath u) = ''/proj/'' then Some \<lparr>folder_uri = file_uri ''/proj''\<rparr>
             else None),
      parseUri = sample_parse,
      sendRequest = sample_server\<rparr>"

definition sample_editor :: "'sv \<Rightarrow> 'sv editor" where
  "sample_editor sv = \<lparr>server = sv, sent = [], outputChannel = Some [], warnings = []\<rparr>"

definition sample_batch :: "rename_pair list" where
  "sample_batch =
     [\<lparr>oldUri = file_uri ''/proj/README.md'', newUri = file_uri ''/proj/NOTES.md''\<rparr>,
      \<lparr>oldUri = file_uri ''/proj/src/Foo.elm'', newUri = file_uri ''/proj/src/Bar.elm''\<rparr>,
      \<lparr>oldUri = file_uri ''/proj/src/Foo.elm'', newUri = file_uri ''/proj/src/Sub/Foo.elm''\<rparr>,
      \<lparr>oldUri = file_uri ''/tmp/Draft.elm'', newUri = file_uri ''/proj/src/Draft.elm''\<rparr>]"

definition sample_references :: "nat \<Rightarrow> lsp_request \<Rightarrow> unit list option awaited \<times> nat" where
  "sample_references n req = (Resolves (Some (replicate n ())), n)"

definition sample_failing :: "nat \<Rightarrow> lsp_request \<Rightarrow> unit list option awaited \<times> nat" where
  "sample_failing n req = (Rejects ''Error: client is not running'', n)"

definition sample_symbols :: "unit \<Rightarrow> lsp_request \<Rightarrow> symbol_response awaited \<times> unit" where
  "sample_symbols sv req =
     (Resolves (FlatSymbols
        [\<lparr>symbol_name = ''update'', symbol_kind = 11, location_uri = ''file:///proj/src/A.elm'',
          location_range = Inr (VsRange 3 0 9 12)\<rparr>,
         \<lparr>symbol_name = ''model'', symbol_kind = 12, location_uri = ''file:///proj/src/A.elm'',
          location_range = Inr (VsRange 11 0 11 9)\<rparr>]), sv)"

definition sample_document :: "string \<Rightarrow> text_document" where
  "sample_document p = \<lparr>languageId = ''elm'', document_uri = file_uri p\<rparr>"

section \<open>Theorems\<close>

subsection \<open>Platform Resolver\<close>

text \<open>
  C1, as stated, fails: on Linux with an ARM CPU, a pair that is not one of the four
  supported combinations, the resolver returns \<^verbatim>\<open>linux-x64\<close> instead of throwing.
\<close>

theorem getPlatformTarget_linux_arm64_guess:
  "getPlatformTarget ''linux'' ''arm64'' = Inr ''linux-x64''
   \<and> \<not> spec_supported_pair ''linux'' ''arm64''"
  by (simp add: getPlatformTarget_def spec_supported_pair_def)

text \<open>
  C1, amended: the resolver decides on the operating system alone. On darwin it returns
  darwin-arm64 for the architecture arm64 and darwin-x64 for every other architecture; on
  linux it returns linux-x64 and on win32 it returns win32-x64, whatever the architecture;
  for every other operating system it throws the unsupported-platform error. So it returns
  one of the four canonical targets exactly when the operating system is darwin, linux or
  win32, and on the four supported pairs it returns the target that names the pair.
\<close>

theorem getPlatformTarget_by_os:
  "(platform = ''darwin'' \<and> arch = ''arm64'' \<longrightarrow> getPlatformTarget platform arch = Inr ''darwin-arm64'')
   \<and> (platform = ''darwin'' \<and> arch \<noteq> ''arm64'' \<longrightarrow> getPlatformTarget platform arch = Inr ''darwin-x64'')
   \<and> (platform = ''linux'' \<longrightarrow> getPlatformTarget platform arch = Inr ''linux-x64'')
   \<and> (platform = ''win32'' \<longrightarrow> getPlatformTarget platform arch = Inr ''win32-x64'')
   \<and> (platform \<notin> {''darwin'', ''linux'', ''win32''}
      \<longrightarrow> getPlatformTarget platform arch = Inl (UnsupportedPlatform platform arch))
   \<and> ((\<exists>t \<in> canonical_targets. getPlatformTarget platform arch = Inr t)
      \<longleftrightarrow> platform \<in> {''darwin'', ''linux'', ''win32''})
   \<and> (spec_supported_pair platform arch
      \<longrightarrow> getPlatformTarget platform arch = Inr (platform @ ''-'' @ arch))"
  by (auto simp add: getPlatformTarget_def canonical_targets_def spec_supported_pair_def)

theorem getPlatformTarget_by_os_witness:
  "getPlatformTarget ''darwin'' ''arm64'' = Inr ''darwin-arm64''
   \<and> getPlatformTarget ''darwin'' ''ppc64'' = Inr ''darwin-x64''
   \<and> getPlatformTarget ''linux'' ''ia32'' = Inr ''linux-x64''
   \<and> getPlatformTarget ''win32'' ''arm64'' = Inr ''win32-x64''
   \<and> getPlatformTarget ''freebsd'' ''x64'' = Inl (UnsupportedPlatform ''freebsd'' ''x64'')
   \<and> (\<exists>t \<in> canonical_targets. getPlatformTarget ''darwin'' ''x64'' = Inr t)
   \<and> spec_supported_pair ''darwin'' ''x64''
   \<and> getPlatformTarget ''darwin'' ''x64'' = Inr ''darwin-x64''"
  using getPlatformTarget_by_os [where platform = "''darwin''" and arch = "''arm64''"]
    getPlatformTarget_by_os [where platform = "''darwin''" and arch = "''ppc64''"]
    getPlatformTarget_by_os [where platform = "''linux''" and arch = "''ia32''"]
    getPlatformTarget_by_os [where platform = "''win32''" and arch = "''arm64''"]
    getPlatformTarget_by_os [where platform = "''freebsd''" and arch = "''x64''"]
    getPlatformTarget_by_os [where platform = "''darwin''" and arch = "''x64''"]
  by (simp add: spec_supported_pair_def canonical_targets_def)

subsection \<open>Binary Locator\<close>

text \<open>
  C7: the locator tries its candidates in strict precedence. A configured path that is set
  (defined and not empty) and exists on disk is returned whatever else exists; otherwise
  the binary in the storage directory if it exists; otherwise the release build of the
  sibling checkout if it exists; otherwise its debug build if it exists; and when none
  exists the result is \<open>None\<close> (\<^verbatim>\<open>undefined\<close>), a value and not an error.
\<close>

theorem findServerBinary_precedence:
  fixes join existsSync platform configPath ctx
  defines "found \<equiv> findServerBinary join existsSync platform configPath ctx"
    and "configured \<equiv> truthy_string configPath \<and> existsSync (the configPath)"
    and "downloaded \<equiv> join [globalStoragePath ctx, BINARY_NAME platform]"
    and "release \<equiv> join [extensionPath ctx, ''..'', ''elm-lsp-rust'', ''target'', ''release'', ''elm_lsp'']"
    and "debug \<equiv> join [extensionPath ctx, ''..'', ''elm-lsp-rust'', ''target'', ''debug'', ''elm_lsp'']"
  shows "(configured \<longrightarrow> found = configPath)
    \<and> (\<not> configured \<and> existsSync downloaded \<longrightarrow> found = Some downloaded)
    \<and> (\<not> configured \<and> \<not> existsSync downloaded \<and> existsSync release \<longrightarrow> found = Some release)
    \<and> (\<not> configured \<and> \<not> existsSync downloaded \<and> \<not> existsSync release \<and> existsSync debug
         \<longrightarrow> found = Some debug)
    \<and> (\<not> configured \<and> \<not> existsSync downloaded \<and> \<not> existsSync release \<and> \<not> existsSync debug
         \<longrightarrow> found = None)"
  unfolding found_def configured_def downloaded_def release_def debug_def
  by (simp add: findServerBinary_def devPaths_def Let_def)

theorem findServerBinary_precedence_witness:
  "findServerBinary join_slash
     (\<lambda>p. p \<in> {''/opt/elm_lsp'', ''/store/elm_lsp'', ''/ext/../elm-lsp-rust/target/debug/elm_lsp''})
     ''linux'' (Some ''/opt/elm_lsp'') \<lparr>globalStoragePath = ''/store'', extensionPath = ''/ext''\<rparr>
     = Some ''/opt/elm_lsp''
   \<and> findServerBinary join_slash
     (\<lambda>p. p \<in> {''/store/elm_lsp'', ''/ext/../elm-lsp-rust/target/release/elm_lsp''})
     ''linux'' (Some []) \<lparr>globalStoragePath = ''/store'', extensionPath = ''/ext''\<rparr>
     = Some ''/store/elm_lsp''
   \<and> findServerBinary join_slash
     (\<lambda>p. p \<in> {''/ext/../elm-lsp-rust/target/release/elm_lsp'',
                ''/ext/../elm-lsp-rust/target/debug/elm_lsp''})
     ''linux'' None \<lparr>globalStoragePath = ''/store'', extensionPath = ''/ext''\<rparr>
     = Some ''/ext/../elm-lsp-rust/target/release/elm_lsp''
   \<and> findServerBinary join_slash (\<lambda>p. p \<in> {''/ext/../elm-lsp-rust/target/debug/elm_lsp''})
     ''linux'' (Some ''/opt/elm_lsp'') \<lparr>globalStoragePath = ''/store'', extensionPath = ''/ext''\<rparr>
     = Some ''/ext/../elm-lsp-rust/target/debug/elm_lsp''
   \<and> findServerBinary join_slash (\<lambda>p. p \<in> {''/store/elm_lsp''})
     ''win32'' None \<lparr>globalStoragePath = ''/store'', extensionPath = ''/ext''\<rparr>
     = None"
  using
    findServerBinary_precedence [where configPath = "Some ''/opt/elm_lsp''" and join = join_slash
      and existsSync = "\<lambda>p. p \<in> {''/opt/elm_lsp'', ''/store/elm_lsp'',
                                  ''/ext/../elm-lsp-rust/target/debug/elm_lsp''}"
      and ctx = "\<lparr>globalStoragePath = ''/store'', extensionPath = ''/ext''\<rparr>"
      and platform = "''linux''"]
    findServerBinary_precedence [where configPath = "Some []" and join = join_slash
      and existsSync = "\<lambda>p. p \<in> {''/store/elm_lsp'', ''/ext/../elm-lsp-rust/target/release/elm_lsp''}"
      and ctx = "\<lparr>globalStoragePath = ''/store'', extensionPath = ''/ext''\<rparr>"
      and platform = "''linux''"]
    findServerBinary_precedence [where configPath = None and join = join_slash
      and existsSync = "\<lambda>p. p \<in> {''/ext/../elm-lsp-rust/target/release/elm_lsp'',
                                  ''/ext/../elm-lsp-rust/target/debug/elm_lsp''}"
      and ctx = "\<lparr>globalStoragePath = ''/store'', extensionPath = ''/ext''\<rparr>"
      and platform = "''linux''"]
    findServerBinary_precedence [where configPath = "Some ''/opt/elm_lsp''" and join = join_slash
      and existsSync = "\<lambda>p. p \<in> {''/ext/../elm-lsp-rust/target/debug/elm_lsp''}"
      and ctx = "\<lparr>globalStoragePath = ''/store'', extensionPath = ''/ext''\<rparr>"
      and platform = "''linux''"]
    findServerBinary_precedence [where configPath = None and join = join_slash
      and existsSync = "\<lambda>p. p \<in> {''/store/elm_lsp''}"
      and ctx = "\<lparr>globalStoragePath = ''/store'', extensionPath = ''/ext''\<rparr>"
      and platform = "''win32''"]
  by (simp add: BINARY_NAME_def)

subsection \<open>Binary Installer: the download\<close>

lemma downloadFile_request_error_unlinks:
  "https_get (Some url) = RequestError err \<Longrightarrow>
     downloadFile https_get url dest files
       = Some (Rejected (TransportError err), files(dest \<mapsto> []), [dest])
     \<and> after_unlinks (files(dest \<mapsto> [])) [dest] dest = None"
  by (simp add: downloadFile_def request.simps after_unlinks_def)

lemma downloadFile_bad_status_keeps_file:
  "https_get (Some url) = Response statusCode location body \<Longrightarrow> statusCode \<notin> {200, 301, 302} \<Longrightarrow>
     downloadFile https_get url dest files
       = Some (Rejected (DownloadFailed statusCode), files(dest \<mapsto> []), [])"
  by (simp add: downloadFile_def request.simps)

lemma downloadFile_follows_redirects:
  "downloadFile sample_remote ''https://github.example/latest'' ''/store/elm_lsp'' Map.empty
     = Some (Resolved, [''/store/elm_lsp'' \<mapsto> ''ELF''], [])"
  by (simp add: downloadFile_def request.simps sample_remote_def)

lemma downloadFile_redirect_without_location:
  "downloadFile (\<lambda>u. case u of None \<Rightarrow> RequestError ''ECONNREFUSED'' | Some a \<Rightarrow> Response 302 None [])
       ''https://github.example/latest'' ''/store/elm_lsp'' Map.empty
     = Some (Rejected (TransportError ''ECONNREFUSED''), [''/store/elm_lsp'' \<mapsto> []], [''/store/elm_lsp''])"
  by (simp add: downloadFile_def request.simps)

lemma downloadFile_aborted_body:
  "https_get (Some url) = BodyAborted received None \<Longrightarrow>
     downloadFile https_get url dest files = Some (Unsettled, files(dest \<mapsto> received), [])"
  by (simp add: downloadFile_def request.simps)

lemma leftover_file_is_found_as_binary:
  "findServerBinary join_slash (\<lambda>p. p \<in> dom [''/store/elm_lsp'' \<mapsto> []]) ''linux'' None
     \<lparr>globalStoragePath = ''/store'', extensionPath = ''/ext''\<rparr> = Some ''/store/elm_lsp''"
  by (simp add: findServerBinary_def BINARY_NAME_def)

text \<open>
  C2 fails on the code. When the server answers 404, the promise is rejected with
  \<^verbatim>\<open>Download failed: 404\<close> and nothing deletes the destination, nor asks for it: the file
  that \<^verbatim>\<open>createWriteStream\<close> created stays there, empty. (A file that was at that path
  before would lose its contents in the same way; \<^verbatim>\<open>activate\<close> downloads only when
  \<^verbatim>\<open>findServerBinary\<close> has found nothing there.) Only the \<^verbatim>\<open>'error'\<close> handler of the request
  calls \<^verbatim>\<open>fs.unlink\<close>.
\<close>

theorem downloadFile_404_leaves_file:
  "downloadFile (\<lambda>u. Response 404 None ''Not Found'') ''https://example.org/elm_lsp-linux-x64''
       ''/store/elm_lsp'' Map.empty
     = Some (Rejected (DownloadFailed 404), [''/store/elm_lsp'' \<mapsto> []], [])
   \<and> downloadFile (\<lambda>u. Response 404 None ''Not Found'') ''https://example.org/elm_lsp-linux-x64''
       ''/store/elm_lsp'' [''/store/elm_lsp'' \<mapsto> ''ELF...'']
     = Some (Rejected (DownloadFailed 404), [''/store/elm_lsp'' \<mapsto> []], [])"
  by (simp add: downloadFile_def request.simps)

subsection \<open>Server Supervisor: the restart command\<close>

lemma supervised_activated: "supervised activated"
  by (simp add: supervised_def activated_def)

lemma supervised_invoke: "supervised s \<Longrightarrow> supervised (restartServer s)"
  unfolding supervised_def restartServer_def call_findServerBinary_def Let_def
  by (cases "client s") auto

lemma supervised_single:
  assumes "supervised s" "i < length (pending s)"
  obtains p where "pending s = [p]" "i = 0" "isRestarting s"
  using assms unfolding supervised_def by auto

lemma supervised_resume:
  assumes "supervised s" "i < length (pending s)"
  shows "supervised (resume (pending s ! i) settled (s\<lparr>pending := take i (pending s) @ drop (Suc i) (pending s)\<rparr>))"
proof -
  from assms obtain p where p: "pending s = [p]" and i: "i = 0"
    by (rule supervised_single)
  show ?thesis
  proof (cases p)
    case (AwaitStop c)
    with assms p i show ?thesis
      by (cases settled) (auto simp: supervised_def finally_block_def call_findServerBinary_def)
  next
    case AwaitFind
    with assms p i show ?thesis
      by (cases settled) (auto simp: supervised_def finally_block_def startLanguageClient_def Let_def)
  next
    case (AwaitStart c)
    with assms p i show ?thesis
      by (cases settled) (auto simp: supervised_def finally_block_def)
  qed
qed

lemma supervised_step: "supervised s \<Longrightarrow> supervised (step s ev)"
  by (cases ev) (simp_all add: step_def supervised_invoke supervised_resume)

lemma supervised_run: "supervised s \<Longrightarrow> supervised (run s evs)"
  unfolding run_def by (induction evs arbitrary: s) (simp_all add: supervised_step)

lemma supervised_reachable: "supervised (run activated evs)"
  by (rule supervised_run [OF supervised_activated])

lemma supervised_card_live: "supervised s \<Longrightarrow> card (live s) \<le> 1"
proof -
  assume "supervised s"
  then have "\<exists>c. live s \<subseteq> {c}"
    unfolding supervised_def by (cases "client s") auto
  then obtain c where "live s \<subseteq> {c}" ..
  then have "card (live s) \<le> card {c}" by (intro card_mono) simp_all
  then show ?thesis by simp
qed

lemma supervised_flag: "supervised s \<Longrightarrow> isRestarting s \<longleftrightarrow> pending s \<noteq> []"
  unfolding supervised_def by auto


lemmas ev_defs = run_def step_def restartServer_def call_findServerBinary_def finally_block_def startLanguageClient_def activated_def Let_def

lemma rejected_when_restarting:
  "isRestarting s \<Longrightarrow>
     step s Invoke = s\<lparr>notices := notices s @ [''Elm LSP is already restarting...'']\<rparr>"
  by (simp add: step_def restartServer_def)

lemma supervised_AwaitStart:
  "supervised s \<Longrightarrow> pending s = [AwaitStart c] \<Longrightarrow> client s = Some c \<and> live s = {c}"
  unfolding supervised_def by auto

lemma finish_start:
  "pending s = [AwaitStart c] \<Longrightarrow>
     step s (Resume 0 (Resolves r)) =
       finally_block (s\<lparr>pending := [], notices := notices s @ [''Elm LSP restarted'']\<rparr>)"
  by (simp add: step_def)

text \<open>
  C3, as stated, fails: a restart that finds no binary stops the old client and starts none,
  so that when the invocation has completed no connection exists.
\<close>

theorem restart_without_binary_leaves_no_connection:
  "pending (run activated [Invoke, Resume 0 (Resolves None), Resume 0 (Resolves None)]) = []
   \<and> card (live (run activated [Invoke, Resume 0 (Resolves None), Resume 0 (Resolves None)])) = 0"
  by (simp add: ev_defs)

text \<open>
  C3, amended: in every state the machine reaches, a restart request that arrives while
  another restart is in flight is rejected: it shows the notice "already restarting" and
  changes nothing else, so it makes no stop, no binary resolution and no start; at most one
  connection is up at any time; and when the invocation in flight completes after its new
  client has started, exactly one connection exists, that of the current client. (A
  restart that finds no binary, or whose stop or start fails, completes with at most one
  connection, possibly none.)
\<close>

theorem restart_reentrancy:
  fixes evs :: "event list"
  defines "s \<equiv> run activated evs"
  shows "(pending s \<noteq> [] \<longrightarrow>
            step s Invoke = s\<lparr>notices := notices s @ [''Elm LSP is already restarting...'']\<rparr>)
     \<and> card (live s) \<le> 1
     \<and> (\<forall>c r. pending s = [AwaitStart c] \<longrightarrow>
            pending (step s (Resume 0 (Resolves r))) = []
          \<and> client (step s (Resume 0 (Resolves r))) = Some c
          \<and> live (step s (Resume 0 (Resolves r))) = {c})"
proof -
  have inv: "supervised s" unfolding s_def by (rule supervised_reachable)
  have a: "pending s \<noteq> [] \<longrightarrow>
            step s Invoke = s\<lparr>notices := notices s @ [''Elm LSP is already restarting...'']\<rparr>"
    using supervised_flag [OF inv] rejected_when_restarting [of s] by blast
  have b: "card (live s) \<le> 1" by (rule supervised_card_live [OF inv])
  have c: "pending (step s (Resume 0 (Resolves r))) = []
          \<and> client (step s (Resume 0 (Resolves r))) = Some c
          \<and> live (step s (Resume 0 (Resolves r))) = {c}"
    if "pending s = [AwaitStart c]" for c r
    using supervised_AwaitStart [OF inv that] by (simp add: finish_start [OF that] finally_block_def)
  from a b c show ?thesis by blast
qed

theorem restart_reentrancy_witness:
  "pending (run activated [Invoke]) \<noteq> []
   \<and> step (run activated [Invoke]) Invoke
       = (run activated [Invoke])\<lparr>notices := [''Elm LSP is already restarting...'']\<rparr>
   \<and> calls (step (run activated [Invoke]) Invoke) = [Stop 0]
   \<and> pending (run activated [Invoke, Resume 0 (Resolves None), Resume 0 (Resolves (Some ''/store/elm_lsp''))])
       = [AwaitStart 1]
   \<and> live (run activated [Invoke, Resume 0 (Resolves None), Resume 0 (Resolves (Some ''/store/elm_lsp'')),
                          Resume 0 (Resolves None)]) = {1}"
  using restart_reentrancy [of "[Invoke]"]
    restart_reentrancy [of "[Invoke, Resume 0 (Resolves None), Resume 0 (Resolves (Some ''/store/elm_lsp''))]"]
  by (simp add: ev_defs)

lemma rejected_requests_keep_flag:
  "isRestarting s \<Longrightarrow>
     isRestarting (run s (replicate n Invoke)) \<and> pending (run s (replicate n Invoke)) = pending s
     \<and> notices (run s (replicate n Invoke))
         = notices s @ replicate n ''Elm LSP is already restarting...''"
proof (induction n arbitrary: s)
  case 0
  then show ?case by (simp add: run_def)
next
  case (Suc n)
  have "run s (replicate (Suc n) Invoke) = run (step s Invoke) (replicate n Invoke)"
    by (simp add: run_def)
  moreover from Suc.prems have "isRestarting (step s Invoke)" "pending (step s Invoke) = pending s"
    "notices (step s Invoke) = notices s @ [''Elm LSP is already restarting...'']"
    by (simp_all add: rejected_when_restarting)
  ultimately show ?case using Suc.IH [of "step s Invoke"] by simp
qed

text \<open>
  C10, as stated, fails: a request made while a restart is in flight is an invocation of
  the command too, and it returns, rejected, with the flag \<^verbatim>\<open>isRestarting\<close> still set.
  After two requests in a row the first invocation is suspended at \<^verbatim>\<open>client.stop()\<close>, the
  second has shown its notice and returned, and the flag is set.
\<close>

theorem rejected_restart_returns_with_flag_set:
  "pending (run activated [Invoke, Invoke]) = [AwaitStop 0]
   \<and> notices (run activated [Invoke, Invoke]) = [''Elm LSP is already restarting...'']
   \<and> isRestarting (run activated [Invoke, Invoke])"
  by (simp add: ev_defs)

text \<open>
  C10, amended: in every state the machine reaches, an invocation that has passed the
  guard leaves the flag \<^verbatim>\<open>isRestarting\<close> reset when it returns, and an exception at any of
  its three awaited calls (stopping the old client, resolving the binary, starting the new
  client) makes it return with the flag reset. The flag is set exactly while such an
  invocation is suspended at one of these calls: as long as the call does not settle the
  flag stays set, whatever the number of requests made meanwhile, each of which is
  rejected and returns with the flag set. Whenever no restart is in flight the flag is not
  set, and a restart request issued then is not rejected: it shows no notice and enters
  the restart.
\<close>

theorem restart_flag_reset:
  fixes evs :: "event list"
  defines "s \<equiv> run activated evs"
  shows "(\<forall>i settled. i < length (pending s) \<and> pending (step s (Resume i settled)) = []
            \<longrightarrow> \<not> isRestarting (step s (Resume i settled)))
     \<and> (\<forall>i e. i < length (pending s)
            \<longrightarrow> pending (step s (Resume i (Rejects e))) = []
              \<and> \<not> isRestarting (step s (Resume i (Rejects e))))
     \<and> (pending s = [] \<longrightarrow>
            \<not> isRestarting s \<and> notices (step s Invoke) = notices s
          \<and> isRestarting (step s Invoke) \<and> pending (step s Invoke) \<noteq> [])
     \<and> (isRestarting s \<longleftrightarrow> pending s \<noteq> [])
     \<and> (pending s \<noteq> [] \<longrightarrow>
            (\<forall>n. isRestarting (run s (replicate n Invoke))
               \<and> pending (run s (replicate n Invoke)) = pending s
               \<and> notices (run s (replicate n Invoke))
                   = notices s @ replicate n ''Elm LSP is already restarting...''))"
proof -
  have inv: "supervised s" unfolding s_def by (rule supervised_reachable)
  have a: "\<not> isRestarting (step s (Resume i settled))"
    if "pending (step s (Resume i settled)) = []" for i settled
    using supervised_flag [OF supervised_step [OF inv, of "Resume i settled"]] that by simp
  have b: "pending (step s (Resume i (Rejects e))) = []
              \<and> \<not> isRestarting (step s (Resume i (Rejects e)))"
    if "i < length (pending s)" for i e
  proof -
    from inv that obtain p where p: "pending s = [p]" and i: "i = 0"
      by (rule supervised_single)
    then show ?thesis by (cases p) (simp_all add: step_def finally_block_def)
  qed
  have c: "pending s = [] \<longrightarrow>
            \<not> isRestarting s \<and> notices (step s Invoke) = notices s
          \<and> isRestarting (step s Invoke) \<and> pending (step s Invoke) \<noteq> []"
    using supervised_flag [OF inv]
    by (cases "client s") (auto simp: step_def restartServer_def call_findServerBinary_def Let_def)
  have d: "isRestarting s \<longleftrightarrow> pending s \<noteq> []"
    by (rule supervised_flag [OF inv])
  have e: "isRestarting (run s (replicate n Invoke))
               \<and> pending (run s (replicate n Invoke)) = pending s
               \<and> notices (run s (replicate n Invoke))
                   = notices s @ replicate n ''Elm LSP is already restarting...''"
    if "pending s \<noteq> []" for n
    using that d by (intro rejected_requests_keep_flag) simp
  from a b c d e show ?thesis by blast
qed

theorem restart_flag_reset_witness:
  "pending (run activated [Invoke]) = [AwaitStop 0]
   \<and> \<not> isRestarting (step (run activated [Invoke]) (Resume 0 (Rejects ''stop timed out'')))
   \<and> pending (run activated [Invoke, Resume 0 (Rejects ''stop timed out'')]) = []
   \<and> isRestarting (step (run activated [Invoke, Resume 0 (Rejects ''stop timed out'')]) Invoke)
   \<and> isRestarting (run (run activated [Invoke]) (replicate 2 Invoke))
   \<and> notices (run (run activated [Invoke]) (replicate 2 Invoke))
       = [''Elm LSP is already restarting...'', ''Elm LSP is already restarting...'']"
  using restart_flag_reset [of "[Invoke]"]
    restart_flag_reset [of "[Invoke, Resume 0 (Rejects ''stop timed out'')]"]
  by (simp add: ev_defs numeral_2_eq_2)

subsection \<open>Rename Synchronizer\<close>

lemma replace_edits_steps:
  assumes "parse uriStr = Inr u"
  shows "replace_edits u edits we =
     (we @ concat (map (spec_step_edit parse)
        (takeWhile (\<lambda>st. spec_step_throws parse st = None) (map (\<lambda>edit. (uriStr, Some edit)) edits))),
      case dropWhile (\<lambda>st. spec_step_throws parse st = None) (map (\<lambda>edit. (uriStr, Some edit)) edits) of
        [] \<Rightarrow> None | st # rest \<Rightarrow> spec_step_throws parse st)"
proof (induction edits arbitrary: we)
  case Nil
  show ?case by simp
next
  case (Cons edit edits)
  show ?case
  proof (cases "edit_range edit")
    case (Inl e)
    then show ?thesis by simp
  next
    case (Inr rng)
    then show ?thesis by (simp add: Cons.IH assms)
  qed
qed

lemma add_changes_steps:
  "add_changes parse entries we =
     (we @ concat (map (spec_step_edit parse)
        (takeWhile (\<lambda>st. spec_step_throws parse st = None) (spec_change_steps entries))),
      case dropWhile (\<lambda>st. spec_step_throws parse st = None) (spec_change_steps entries) of
        [] \<Rightarrow> None | st # rest \<Rightarrow> spec_step_throws parse st)"
proof (induction entries arbitrary: we)
  case Nil
  show ?case by (simp add: spec_change_steps_def)
next
  case (Cons entry entries)
  obtain uriStr edits where entry: "entry = (uriStr, edits)" by (cases entry)
  let ?ok = "\<lambda>st. spec_step_throws parse st = None"
  let ?E = "map (\<lambda>edit. (uriStr, Some edit)) edits"
  have steps: "spec_change_steps ((uriStr, edits) # entries) = (uriStr, None) # ?E @ spec_change_steps entries"
    by (simp add: spec_change_steps_def)
  show ?case
  proof (cases "parse uriStr")
    case (Inl e)
    then show ?thesis by (simp add: steps entry)
  next
    case (Inr u)
    note re = replace_edits_steps [where parse = parse and uriStr = uriStr and u = u
      and edits = edits and we = we, OF Inr]
    show ?thesis
    proof (cases "\<forall>st \<in> set ?E. ?ok st")
      case True
      then have allok: "?ok st" if "st \<in> set ?E" for st using that by blast
      have tw: "takeWhile ?ok (?E @ spec_change_steps entries) = ?E @ takeWhile ?ok (spec_change_steps entries)"
        by (rule takeWhile_append2) (rule allok)
      have dw: "dropWhile ?ok (?E @ spec_change_steps entries) = dropWhile ?ok (spec_change_steps entries)"
        by (rule dropWhile_append2) (rule allok)
      have twE: "takeWhile ?ok ?E = ?E"
        unfolding takeWhile_eq_all_conv using True by blast
      have dwE: "dropWhile ?ok ?E = []"
        unfolding dropWhile_eq_Nil_conv using True by blast
      have "replace_edits u edits we = (we @ concat (map (spec_step_edit parse) ?E), None)"
        using re by (simp only: twE dwE list.case)
      then show ?thesis
        by (simp add: entry Inr steps tw dw Cons.IH del: takeWhile_append dropWhile_append map_map)
    next
      case False
      then obtain x where x: "x \<in> set ?E" "\<not> ?ok x" by blast
      have tw: "takeWhile ?ok (?E @ spec_change_steps entries) = takeWhile ?ok ?E"
        by (rule takeWhile_append1 [where P = "?ok" and x = x]) (use x in simp_all)
      have dw: "dropWhile ?ok (?E @ spec_change_steps entries) = dropWhile ?ok ?E @ spec_change_steps entries"
        by (rule dropWhile_append1 [where P = "?ok" and x = x]) (use x in simp_all)
      from False have ne: "dropWhile ?ok ?E \<noteq> []" unfolding dropWhile_eq_Nil_conv .
      then obtain st rest where dE: "dropWhile ?ok ?E = st # rest" by (cases "dropWhile ?ok ?E") auto
      with hd_dropWhile [OF ne] have "spec_step_throws parse st \<noteq> None" by simp
      then obtain e where e: "spec_step_throws parse st = Some e" by auto
      have "replace_edits u edits we = (we @ concat (map (spec_step_edit parse) (takeWhile ?ok ?E)), Some e)"
        using re by (simp only: dE list.case e)
      then show ?thesis
        by (simp add: entry Inr steps tw dw dE e del: takeWhile_append dropWhile_append map_map)
    qed
  qed
qed

lemma add_result_edits_steps:
  "add_result_edits parse result we =
     (we @ spec_kept_edits parse (Resolves result), spec_reply_error parse (Resolves result))"
  by (auto simp: add_result_edits_def spec_kept_edits_def spec_reply_error_def spec_reply_changes_def
        add_changes_steps spec_change_steps_def split: option.splits)

lemma appendLine_fields [simp]:
  "server (appendLine l w) = server w" "sent (appendLine l w) = sent w"
  "outputChannel (appendLine l w) = map_option (\<lambda>ls. ls @ [l]) (outputChannel w)"
  by (simp_all add: appendLine_def)

lemma showWarningMessage_fields [simp]:
  "server (showWarningMessage m w) = server w" "sent (showWarningMessage m w) = sent w"
  "outputChannel (showWarningMessage m w) = outputChannel w"
  by (simp_all add: showWarningMessage_def)

lemma report_result_fields [simp]:
  "server (report_result r w) = server w" "sent (report_result r w) = sent w"
  by (simp_all add: report_result_def split: option.splits)

lemma report_result_channel:
  "outputChannel w = Some ls \<Longrightarrow>
     \<exists>ls'. outputChannel (report_result r w) = Some ls' \<and> set ls \<subseteq> set ls'"
  by (auto simp: report_result_def split: option.splits)

lemma kept_edits_Rejects [simp]: "spec_kept_edits parse (Rejects e) = []"
  by (simp add: spec_kept_edits_def spec_reply_changes_def spec_change_steps_def)

lemma reply_error_Rejects [simp]: "spec_reply_error parse (Rejects e) = Some e"
  by (simp add: spec_reply_error_def)

lemma process_pair_step:
  assumes "sendRequest env (server w) (pair_request env f) = (reply, sv)"
  obtains w1 where "process_pair env (acc, w) f = (acc @ spec_kept_edits (parseUri env) reply, w1)"
    and "server w1 = sv" and "sent w1 = sent w @ [pair_request env f]"
    and "\<And>ls. outputChannel w = Some ls \<Longrightarrow>
           \<exists>ls'. outputChannel w1 = Some ls' \<and> set ls \<subseteq> set ls'
             \<and> (\<forall>e. spec_reply_error (parseUri env) reply = Some e
                    \<longrightarrow> (''Elm file rename error: '' @ e) \<in> set ls')"
proof (cases reply)
  case (Rejects e)
  show thesis
    by (rule that [of "appendLine (''Elm file rename error: '' @ e)
                 (w\<lparr>server := sv, sent := sent w @ [pair_request env f]\<rparr>)"])
      (auto simp: process_pair_def Let_def assms Rejects)
next
  case (Resolves result)
  let ?w1 = "w\<lparr>server := sv, sent := sent w @ [pair_request env f]\<rparr>"
  show thesis
  proof (cases "spec_reply_error (parseUri env) (Resolves result)")
    case None
    show thesis
    proof (rule that [of "report_result result ?w1"])
      fix ls assume "outputChannel w = Some ls"
      then have "outputChannel ?w1 = Some ls" by simp
      from report_result_channel [OF this, of result]
      show "\<exists>ls'. outputChannel (report_result result ?w1) = Some ls' \<and> set ls \<subseteq> set ls'
             \<and> (\<forall>e. spec_reply_error (parseUri env) reply = Some e
                    \<longrightarrow> (''Elm file rename error: '' @ e) \<in> set ls')"
        by (auto simp: Resolves None)
    qed (simp_all add: process_pair_def Let_def assms Resolves add_result_edits_steps None)
  next
    case (Some e)
    show thesis
      by (rule that [of "appendLine (''Elm file rename error: '' @ e) ?w1"])
        (auto simp: process_pair_def Let_def assms Resolves add_result_edits_steps Some)
  qed
qed

lemma foldl_process_pair:
  "\<exists>w'. foldl (process_pair env) (acc, w) fs
          = (acc @ concat (map (spec_kept_edits (parseUri env))
               (server_replies (sendRequest env) (server w) (map (pair_request env) fs))), w')
     \<and> sent w' = sent w @ map (pair_request env) fs
     \<and> (\<forall>ls. outputChannel w = Some ls \<longrightarrow>
          (\<exists>ls'. outputChannel w' = Some ls' \<and> set ls \<subseteq> set ls'
            \<and> (\<forall>reply \<in> set (server_replies (sendRequest env) (server w)
                                      (map (pair_request env) fs)).
                 \<forall>e. spec_reply_error (parseUri env) reply = Some e
                  \<longrightarrow> (''Elm file rename error: '' @ e) \<in> set ls')))"
proof (induction fs arbitrary: acc w)
  case Nil
  show ?case by simp
next
  case (Cons f fs)
  let ?parse = "parseUri env"
  obtain reply sv where send: "sendRequest env (server w) (pair_request env f) = (reply, sv)"
    by (cases "sendRequest env (server w) (pair_request env f)")
  from process_pair_step [OF send, of acc]
  obtain w1 where step: "process_pair env (acc, w) f = (acc @ spec_kept_edits ?parse reply, w1)"
    and sv: "server w1 = sv" and sent1: "sent w1 = sent w @ [pair_request env f]"
    and chan: "\<And>ls. outputChannel w = Some ls \<Longrightarrow>
           \<exists>ls'. outputChannel w1 = Some ls' \<and> set ls \<subseteq> set ls'
             \<and> (\<forall>e. spec_reply_error ?parse reply = Some e \<longrightarrow> (''Elm file rename error: '' @ e) \<in> set ls')"
    by blast
  let ?rest = "server_replies (sendRequest env) (server w1) (map (pair_request env) fs)"
  from Cons.IH [of "acc @ spec_kept_edits ?parse reply" w1]
  obtain w' where fold: "foldl (process_pair env) (acc @ spec_kept_edits ?parse reply, w1) fs
          = ((acc @ spec_kept_edits ?parse reply) @ concat (map (spec_kept_edits ?parse) ?rest), w')"
    and sent': "sent w' = sent w1 @ map (pair_request env) fs"
    and chan': "\<forall>ls. outputChannel w1 = Some ls \<longrightarrow>
          (\<exists>ls'. outputChannel w' = Some ls' \<and> set ls \<subseteq> set ls'
            \<and> (\<forall>reply \<in> set ?rest. \<forall>e. spec_reply_error ?parse reply = Some e
                  \<longrightarrow> (''Elm file rename error: '' @ e) \<in> set ls'))"
    by blast
  have replies: "server_replies (sendRequest env) (server w) (map (pair_request env) (f # fs))
      = reply # ?rest"
    by (simp add: send sv)
  have "foldl (process_pair env) (acc, w) (f # fs)
          = (acc @ concat (map (spec_kept_edits ?parse)
               (server_replies (sendRequest env) (server w) (map (pair_request env) (f # fs)))), w')"
    unfolding replies by (simp add: step fold)
  moreover have "sent w' = sent w @ map (pair_request env) (f # fs)"
    by (simp add: sent' sent1)
  moreover have "\<exists>ls'. outputChannel w' = Some ls' \<and> set ls \<subseteq> set ls'
            \<and> (\<forall>reply \<in> set (server_replies (sendRequest env) (server w)
                                      (map (pair_request env) (f # fs))).
                 \<forall>e. spec_reply_error ?parse reply = Some e
                  \<longrightarrow> (''Elm file rename error: '' @ e) \<in> set ls')"
    if "outputChannel w = Some ls" for ls
  proof -
    from chan [OF that] obtain ls1 where l1: "outputChannel w1 = Some ls1" "set ls \<subseteq> set ls1"
      "\<forall>e. spec_reply_error ?parse reply = Some e \<longrightarrow> (''Elm file rename error: '' @ e) \<in> set ls1" by blast
    from chan' l1(1) obtain ls' where l2: "outputChannel w' = Some ls'" "set ls1 \<subseteq> set ls'"
      "\<forall>reply \<in> set ?rest. \<forall>e. spec_reply_error ?parse reply = Some e
                  \<longrightarrow> (''Elm file rename error: '' @ e) \<in> set ls'" by blast
    from l1 l2 show ?thesis unfolding replies by auto
  qed
  ultimately show ?case by blast
qed

lemma onWillRenameFiles_run:
  assumes "client_now \<noteq> None"
  obtains w' where
    "onWillRenameFiles env client_now w files =
       ((if filter is_elm_pair files = [] then None
         else Some (concat (map (spec_kept_edits (parseUri env)) (server_replies (sendRequest env) (server w)
                      (map (pair_request env) (filter is_elm_pair files)))))), w')"
    and "sent w' = sent w @ map (pair_request env) (filter is_elm_pair files)"
    and "\<And>ls. outputChannel w = Some ls \<Longrightarrow>
          \<exists>ls'. outputChannel w' = Some ls' \<and> set ls \<subseteq> set ls'
            \<and> (\<forall>reply \<in> set (server_replies (sendRequest env) (server w)
                                      (map (pair_request env) (filter is_elm_pair files))).
                 \<forall>e. spec_reply_error (parseUri env) reply = Some e
                  \<longrightarrow> (''Elm file rename error: '' @ e) \<in> set ls')"
proof (cases "filter is_elm_pair files = []")
  case True
  show thesis by (rule that [of w]) (simp_all add: onWillRenameFiles_def True)
next
  case False
  from foldl_process_pair [of env "[]" w "filter is_elm_pair files"]
  obtain w' where "foldl (process_pair env) ([], w) (filter is_elm_pair files)
          = (concat (map (spec_kept_edits (parseUri env))
               (server_replies (sendRequest env) (server w) (map (pair_request env) (filter is_elm_pair files)))), w')"
     and "sent w' = sent w @ map (pair_request env) (filter is_elm_pair files)"
     and "\<forall>ls. outputChannel w = Some ls \<longrightarrow>
          (\<exists>ls'. outputChannel w' = Some ls' \<and> set ls \<subseteq> set ls'
            \<and> (\<forall>reply \<in> set (server_replies (sendRequest env) (server w)
                                      (map (pair_request env) (filter is_elm_pair files))).
                 \<forall>e. spec_reply_error (parseUri env) reply = Some e
                  \<longrightarrow> (''Elm file rename error: '' @ e) \<in> set ls'))"
    by auto
  then show thesis
    using assms False by (intro that [of w']) (simp_all add: onWillRenameFiles_def)
qed

lemma steps_well_formed:
  assumes "\<forall>(uriStr, edits) \<in> set entries.
             \<not> isl (parse uriStr) \<and> (\<forall>edit \<in> set edits. \<not> isl (edit_range edit))"
  shows "(\<forall>st \<in> set (spec_change_steps entries). spec_step_throws parse st = None)
     \<and> concat (map (spec_step_edit parse) (spec_change_steps entries))
         = concat (map (\<lambda>(uriStr, edits).
             map (\<lambda>edit. (projr (parse uriStr), projr (edit_range edit), newText edit)) edits) entries)"
  using assms
proof (induction entries)
  case Nil
  show ?case by (simp add: spec_change_steps_def)
next
  case (Cons entry entries)
  obtain uriStr edits where entry: "entry = (uriStr, edits)" by (cases entry)
  from Cons.prems obtain u where u: "parse uriStr = Inr u"
    by (cases "parse uriStr") (auto simp: entry)
  from Cons.prems have r: "\<forall>edit \<in> set edits. \<exists>rng. edit_range edit = Inr rng"
    by (auto simp: entry) (metis isl_def sum.exhaust)
  have steps: "spec_change_steps ((uriStr, edits) # entries)
      = (uriStr, None) # map (\<lambda>edit. (uriStr, Some edit)) edits @ spec_change_steps entries"
    by (simp add: spec_change_steps_def)
  have e: "concat (map (spec_step_edit parse) (map (\<lambda>edit. (uriStr, Some edit)) edits))
      = map (\<lambda>edit. (projr (parse uriStr), projr (edit_range edit), newText edit)) edits"
    using r by (induction edits) (auto simp: u)
  from Cons.IH Cons.prems have IH: "(\<forall>st \<in> set (spec_change_steps entries). spec_step_throws parse st = None)"
      "concat (map (spec_step_edit parse) (spec_change_steps entries))
         = concat (map (\<lambda>(uriStr, edits).
             map (\<lambda>edit. (projr (parse uriStr), projr (edit_range edit), newText edit)) edits) entries)"
    by auto
  from r IH(1) have "\<forall>st \<in> set (spec_change_steps ((uriStr, edits) # entries)). spec_step_throws parse st = None"
    unfolding steps by (auto simp: u)
  moreover have "concat (map (spec_step_edit parse) (spec_change_steps ((uriStr, edits) # entries)))
         = concat (map (\<lambda>(uriStr, edits).
             map (\<lambda>edit. (projr (parse uriStr), projr (edit_range edit), newText edit)) edits)
             ((uriStr, edits) # entries))"
    unfolding steps using e IH(2) by simp
  ultimately show ?case unfolding entry by blast
qed

lemma kept_edits_well_formed:
  assumes "spec_well_formed_reply parse reply"
  shows "spec_kept_edits parse reply
     = concat (map (\<lambda>(uriStr, edits).
         map (\<lambda>edit. (projr (parse uriStr), projr (edit_range edit), newText edit)) edits)
         (spec_reply_changes reply))"
proof -
  from steps_well_formed [of "spec_reply_changes reply" parse] assms
  have ok: "\<forall>st \<in> set (spec_change_steps (spec_reply_changes reply)). spec_step_throws parse st = None"
    and eq: "concat (map (spec_step_edit parse) (spec_change_steps (spec_reply_changes reply)))
         = concat (map (\<lambda>(uriStr, edits).
             map (\<lambda>edit. (projr (parse uriStr), projr (edit_range edit), newText edit)) edits)
             (spec_reply_changes reply))"
    unfolding spec_well_formed_reply_def by blast+
  from ok have tw: "takeWhile (\<lambda>st. spec_step_throws parse st = None) (spec_change_steps (spec_reply_changes reply))
      = spec_change_steps (spec_reply_changes reply)"
    unfolding takeWhile_eq_all_conv .
  show ?thesis unfolding spec_kept_edits_def tw by (rule eq)
qed

lemmas sample_defs = sample_env_def sample_server_def sample_editor_def sample_batch_def
  sample_result_def sample_broken_result_def sample_parse_def file_uri_def
  sample_dirname_def sample_basename_def sample_relative_def
  sample_references_def sample_failing_def sample_symbols_def sample_document_def

text \<open>
  C4: with a client at hand, the commands that the listener sends are, in the order of
  the batch, one for every pair whose old and new paths both end with \<^verbatim>\<open>.elm\<close>: when the
  directory of the old path is the directory of the new path, \<^verbatim>\<open>elm.renameFile\<close> with the
  old URI and the base name of the new path; otherwise \<^verbatim>\<open>elm.moveFile\<close> with the old URI
  and the new path made relative to the workspace folder of the old URI, or the new path
  as it is when there is no such folder.
\<close>

theorem rename_or_move_command:
  assumes "client_now \<noteq> None"
  shows "sent (snd (onWillRenameFiles env client_now w files)) =
     sent w @ map (\<lambda>file.
        if dirname env (fsPath (oldUri file)) = dirname env (fsPath (newUri file)) then
          ExecuteCommand ''elm.renameFile''
            [uri_toString (oldUri file), basename env (fsPath (newUri file))]
        else
          ExecuteCommand ''elm.moveFile''
            [uri_toString (oldUri file),
             case getWorkspaceFolder env (oldUri file) of
               Some root \<Rightarrow> relative env (fsPath (folder_uri root)) (fsPath (newUri file))
             | None \<Rightarrow> fsPath (newUri file)])
       (filter is_elm_pair files)"
proof -
  from onWillRenameFiles_run [OF assms, of env w files]
  obtain w' where "snd (onWillRenameFiles env client_now w files) = w'"
    and "sent w' = sent w @ map (pair_request env) (filter is_elm_pair files)"
    by (metis snd_conv)
  then show ?thesis
    by (simp add: pair_request_def Let_def cong: map_cong)
qed

theorem rename_or_move_command_witness:
  "sent (snd (onWillRenameFiles sample_env (Some (0::nat)) (sample_editor ()) sample_batch))
     = [ExecuteCommand ''elm.renameFile'' [''file:///proj/src/Foo.elm'', ''Bar.elm''],
        ExecuteCommand ''elm.moveFile'' [''file:///proj/src/Foo.elm'', ''src/Sub/Foo.elm''],
        ExecuteCommand ''elm.moveFile'' [''file:///tmp/Draft.elm'', ''/proj/src/Draft.elm'']]"
  using rename_or_move_command [where client_now = "Some (0::nat)" and env = sample_env
      and w = "sample_editor ()" and files = sample_batch]
  by (simp add: sample_defs is_elm_pair_def endsWith_def)

lemma sample_replies:
  "server_replies (sendRequest sample_env) (server (sample_editor ()))
     (map (pair_request sample_env) (filter is_elm_pair sample_batch))
   = [Rejects ''Error: server busy'', Resolves (Some sample_result), Resolves (Some sample_broken_result)]"
  "server_replies (sendRequest sample_env) (server (sample_editor ()))
     (map (pair_request sample_env) (filter is_elm_pair [sample_batch ! 2]))
   = [Resolves (Some sample_result)]"
  by (simp_all add: sample_env_def sample_server_def sample_editor_def sample_batch_def file_uri_def
      sample_dirname_def sample_basename_def sample_relative_def is_elm_pair_def endsWith_def
      pair_request_def Let_def)

lemma sample_kept:
  "spec_kept_edits (parseUri sample_env) (Rejects ''Error: server busy'') = []"
  "spec_kept_edits (parseUri sample_env) (Resolves (Some sample_result))
     = [(file_uri ''/proj/src/Main.elm'', VsRange 2 7 2 10, ''Sub.Foo'')]"
  "spec_kept_edits (parseUri sample_env) (Resolves (Some sample_broken_result))
     = [(file_uri ''/proj/src/Main.elm'', VsRange 4 7 4 12, ''Draft'')]"
  "spec_reply_error (parseUri sample_env) (Resolves (Some sample_broken_result))
     = Some ''TypeError: edit.range is undefined''"
  "spec_well_formed_reply (parseUri sample_env) (Resolves (Some sample_result))"
  by (simp_all add: sample_env_def sample_parse_def sample_result_def sample_broken_result_def
      file_uri_def spec_kept_edits_def spec_reply_error_def spec_reply_changes_def spec_change_steps_def
      spec_well_formed_reply_def)

text \<open>
  C5: with a client and an output channel at hand and at least one \<^verbatim>\<open>.elm\<close> pair in the
  batch, the listener hands over one workspace edit, after the loop. It holds, in the order
  of the pairs, the edits kept from every reply of the server: for a reply that is handled
  without exception these are all the edits of its changes, each with its parsed file
  identifier, its range and its new text, and for a reply whose handling throws they are
  the edits before the exception. A request is sent for every pair of the batch whatever
  happened to the earlier ones, and every exception, of a request or of the handling of a
  reply, leaves its line in the output channel.
\<close>

theorem rename_batch_accumulates:
  fixes env :: "'sv rename_env" and w :: "'sv editor" and files :: "rename_pair list"
    and client_now :: "'c option"
  defines "elmFiles \<equiv> filter is_elm_pair files"
  defines "replies \<equiv> server_replies (sendRequest env) (server w) (map (pair_request env) elmFiles)"
  defines "handed \<equiv> onWillRenameFiles env client_now w files"
  assumes "client_now \<noteq> None" and "elmFiles \<noteq> []" and "outputChannel w = Some ls"
  shows "fst handed = Some (concat (map (spec_kept_edits (parseUri env)) replies))
     \<and> ((\<forall>reply \<in> set replies. spec_well_formed_reply (parseUri env) reply) \<longrightarrow>
          fst handed = Some (concat (map (\<lambda>reply.
            concat (map (\<lambda>(uriStr, edits).
              map (\<lambda>edit. (projr (parseUri env uriStr), projr (edit_range edit), newText edit)) edits)
              (spec_reply_changes reply))) replies)))
     \<and> sent (snd handed) = sent w @ map (pair_request env) elmFiles
     \<and> length replies = length elmFiles
     \<and> (\<forall>reply \<in> set replies. \<forall>e. spec_reply_error (parseUri env) reply = Some e \<longrightarrow>
           (''Elm file rename error: '' @ e) \<in> set (the (outputChannel (snd handed))))"
proof -
  from onWillRenameFiles_run [OF assms(4), of env w files]
  obtain w' where run: "handed = (Some (concat (map (spec_kept_edits (parseUri env)) replies)), w')"
    and sent: "sent w' = sent w @ map (pair_request env) elmFiles"
    and chan: "\<And>ls. outputChannel w = Some ls \<Longrightarrow>
          \<exists>ls'. outputChannel w' = Some ls' \<and> set ls \<subseteq> set ls'
            \<and> (\<forall>reply \<in> set replies. \<forall>e. spec_reply_error (parseUri env) reply = Some e
                  \<longrightarrow> (''Elm file rename error: '' @ e) \<in> set ls')"
    using assms(5) unfolding elmFiles_def replies_def handed_def by auto
  have len: "length (server_replies send sv reqs) = length reqs"
    for send :: "'sv \<Rightarrow> lsp_request \<Rightarrow> command_result option awaited \<times> 'sv" and sv reqs
    by (induction reqs arbitrary: sv) (simp_all split: prod.splits)
  have a: "fst handed = Some (concat (map (spec_kept_edits (parseUri env)) replies))"
    by (simp add: run)
  have b: "fst handed = Some (concat (map (\<lambda>reply.
            concat (map (\<lambda>(uriStr, edits).
              map (\<lambda>edit. (projr (parseUri env uriStr), projr (edit_range edit), newText edit)) edits)
              (spec_reply_changes reply))) replies))"
    if "\<forall>reply \<in> set replies. spec_well_formed_reply (parseUri env) reply"
  proof -
    have "map (spec_kept_edits (parseUri env)) replies = map (\<lambda>reply.
            concat (map (\<lambda>(uriStr, edits).
              map (\<lambda>edit. (projr (parseUri env uriStr), projr (edit_range edit), newText edit)) edits)
              (spec_reply_changes reply))) replies"
      by (rule map_cong [OF refl]) (use that in \<open>simp add: kept_edits_well_formed\<close>)
    then show ?thesis by (simp only: a)
  qed
  have c: "sent (snd handed) = sent w @ map (pair_request env) elmFiles"
    by (simp add: run sent)
  have d: "length replies = length elmFiles"
    by (simp add: replies_def len)
  have e: "\<forall>reply \<in> set replies. \<forall>e. spec_reply_error (parseUri env) reply = Some e \<longrightarrow>
           (''Elm file rename error: '' @ e) \<in> set (the (outputChannel (snd handed)))"
    using chan [OF assms(6)] by (auto simp: run)
  from a b c d e show ?thesis by blast
qed

theorem rename_batch_accumulates_witness:
  "fst (onWillRenameFiles sample_env (Some (0::nat)) (sample_editor ()) sample_batch)
     = Some [(file_uri ''/proj/src/Main.elm'', VsRange 2 7 2 10, ''Sub.Foo''),
             (file_uri ''/proj/src/Main.elm'', VsRange 4 7 4 12, ''Draft'')]
   \<and> ''Elm file rename error: Error: server busy''
       \<in> set (the (outputChannel (snd (onWillRenameFiles sample_env (Some (0::nat)) (sample_editor ()) sample_batch))))
   \<and> ''Elm file rename error: TypeError: edit.range is undefined''
       \<in> set (the (outputChannel (snd (onWillRenameFiles sample_env (Some (0::nat)) (sample_editor ()) sample_batch))))
   \<and> spec_well_formed_reply (parseUri sample_env) (Resolves (Some sample_result))
   \<and> fst (onWillRenameFiles sample_env (Some (0::nat)) (sample_editor ()) [sample_batch ! 2])
     = Some [(file_uri ''/proj/src/Main.elm'', VsRange 2 7 2 10, ''Sub.Foo'')]"
proof -
  have client: "Some (0::nat) \<noteq> None" by simp
  have batch: "filter is_elm_pair sample_batch \<noteq> []" "filter is_elm_pair [sample_batch ! 2] \<noteq> []"
    by (simp_all add: sample_batch_def file_uri_def is_elm_pair_def endsWith_def)
  have channel: "outputChannel (sample_editor ()) = Some []"
    by (simp add: sample_editor_def)
  note whole = rename_batch_accumulates [where client_now = "Some (0::nat)" and env = sample_env
      and w = "sample_editor ()" and files = sample_batch and ls = "[]",
      OF client batch(1) channel, unfolded sample_replies]
  note single = rename_batch_accumulates [where client_now = "Some (0::nat)" and env = sample_env
      and w = "sample_editor ()" and files = "[sample_batch ! 2]" and ls = "[]",
      OF client batch(2) channel, unfolded sample_replies]
  from whole have "fst (onWillRenameFiles sample_env (Some (0::nat)) (sample_editor ()) sample_batch)
     = Some [(file_uri ''/proj/src/Main.elm'', VsRange 2 7 2 10, ''Sub.Foo''),
             (file_uri ''/proj/src/Main.elm'', VsRange 4 7 4 12, ''Draft'')]"
    by (simp add: sample_kept)
  moreover from whole have "''Elm file rename error: Error: server busy''
       \<in> set (the (outputChannel (snd (onWillRenameFiles sample_env (Some (0::nat)) (sample_editor ()) sample_batch))))"
    by simp
  moreover from whole have "''Elm file rename error: TypeError: edit.range is undefined''
       \<in> set (the (outputChannel (snd (onWillRenameFiles sample_env (Some (0::nat)) (sample_editor ()) sample_batch))))"
    by (simp add: sample_kept)
  moreover note sample_kept(5)
  moreover from single sample_kept(5)
  have "fst (onWillRenameFiles sample_env (Some (0::nat)) (sample_editor ()) [sample_batch ! 2])
     = Some [(file_uri ''/proj/src/Main.elm'', VsRange 2 7 2 10, ''Sub.Foo'')]"
    by (simp add: sample_kept)
  ultimately show ?thesis by blast
qed

text \<open>
  C8: a pair whose old or new path does not end with \<^verbatim>\<open>.elm\<close> is ignored: the listener
  does with the batch what it does with the batch without that pair; a batch of such
  pairs alone sends nothing and hands over no edit; and every request sent comes from a
  pair whose two paths end with \<^verbatim>\<open>.elm\<close>.
\<close>

theorem non_elm_pairs_ignored:
  "(\<not> is_elm_pair f \<longrightarrow>
      onWillRenameFiles env client_now w (pre @ f # post) = onWillRenameFiles env client_now w (pre @ post))
   \<and> ((\<forall>f \<in> set files. \<not> is_elm_pair f) \<longrightarrow> onWillRenameFiles env client_now w files = (None, w))
   \<and> set (sent (snd (onWillRenameFiles env client_now w files)))
       \<subseteq> set (sent w) \<union> pair_request env ` {f \<in> set files. is_elm_pair f}"
proof -
  have a: "\<not> is_elm_pair f \<longrightarrow>
      onWillRenameFiles env client_now w (pre @ f # post) = onWillRenameFiles env client_now w (pre @ post)"
    by (simp add: onWillRenameFiles_def)
  have b: "(\<forall>f \<in> set files. \<not> is_elm_pair f) \<longrightarrow> onWillRenameFiles env client_now w files = (None, w)"
    by (simp add: onWillRenameFiles_def filter_empty_conv)
  have c: "set (sent (snd (onWillRenameFiles env client_now w files)))
       \<subseteq> set (sent w) \<union> pair_request env ` {f \<in> set files. is_elm_pair f}"
  proof (cases "client_now = None")
    case True
    then show ?thesis by (simp add: onWillRenameFiles_def)
  next
    case False
    from onWillRenameFiles_run [OF False, of env w files]
    obtain w' where "snd (onWillRenameFiles env client_now w files) = w'"
      and "sent w' = sent w @ map (pair_request env) (filter is_elm_pair files)"
      by (metis snd_conv)
    then show ?thesis by auto
  qed
  from a b c show ?thesis by blast
qed

theorem non_elm_pairs_ignored_witness:
  "\<not> is_elm_pair (hd sample_batch)
   \<and> onWillRenameFiles sample_env (Some (0::nat)) (sample_editor ()) sample_batch
       = onWillRenameFiles sample_env (Some (0::nat)) (sample_editor ()) (tl sample_batch)
   \<and> onWillRenameFiles sample_env (Some (0::nat)) (sample_editor ()) [hd sample_batch]
       = (None, sample_editor ())"
  using non_elm_pairs_ignored [where f = "hd sample_batch" and env = sample_env
      and client_now = "Some (0::nat)" and w = "sample_editor ()" and pre = "[]"
      and post = "tl sample_batch" and files = "[hd sample_batch]"]
  by (simp add: sample_batch_def is_elm_pair_def endsWith_def file_uri_def)

subsection \<open>Reference Annotator\<close>

lemma digit_cases:
  assumes "d < (10::nat)"
  obtains "d = 0" | "d = 1" | "d = 2" | "d = 3" | "d = 4" | "d = 5" | "d = 6" | "d = 7" | "d = 8" | "d = 9"
proof -
  from assms have "d = 0 \<or> d = 1 \<or> d = 2 \<or> d = 3 \<or> d = 4 \<or> d = 5 \<or> d = 6 \<or> d = 7 \<or> d = 8 \<or> d = 9"
    by arith
  with that show thesis by blast
qed

lemma digit_char:
  assumes "d < 10"
  shows "digit_value (''0123456789'' ! d) = d"
    and "''0123456789'' ! d \<in> set ''0123456789''"
    and "d \<noteq> 0 \<Longrightarrow> ''0123456789'' ! d \<noteq> CHR ''0''"
  using assms by (cases d rule: digit_cases; simp add: digit_value_def)+

lemma decimal_value_snoc: "decimal_value (ds @ [c]) = 10 * decimal_value ds + digit_value c"
  by (simp add: decimal_value_def)

lemma string_of_nat_nonempty: "string_of_nat n \<noteq> []"
  by (subst string_of_nat.simps) simp

lemma string_of_nat_decimal:
  "decimal_value (string_of_nat n) = n
   \<and> set (string_of_nat n) \<subseteq> set ''0123456789''
   \<and> (n \<noteq> 0 \<longrightarrow> hd (string_of_nat n) \<noteq> CHR ''0'')"
proof (induction n rule: string_of_nat.induct)
  case (1 n)
  show ?case
  proof (cases "n < 10")
    case True
    have s: "string_of_nat n = [''0123456789'' ! n]"
      by (subst string_of_nat.simps) (simp add: True)
    from digit_char [OF True] show ?thesis
      unfolding s by (simp add: decimal_value_def)
  next
    case False
    have s: "string_of_nat n = string_of_nat (n div 10) @ [''0123456789'' ! (n mod 10)]"
      by (subst string_of_nat.simps) (simp add: False)
    have m: "n mod 10 < 10" by simp
    from False have d: "n div 10 \<noteq> 0" by simp
    from "1.IH" [OF False] d
    have IH: "decimal_value (string_of_nat (n div 10)) = n div 10"
      "set (string_of_nat (n div 10)) \<subseteq> set ''0123456789''"
      "hd (string_of_nat (n div 10)) \<noteq> CHR ''0''" by blast+
    have "decimal_value (string_of_nat n) = n"
      unfolding s decimal_value_snoc IH(1) digit_char(1) [OF m] by simp
    moreover have "set (string_of_nat n) \<subseteq> set ''0123456789''"
      unfolding s using IH(2) digit_char(2) [OF m] by simp
    moreover have "hd (string_of_nat n) \<noteq> CHR ''0''"
      unfolding s using IH(3) string_of_nat_nonempty [of "n div 10"] by simp
    ultimately show ?thesis by blast
  qed
qed

text \<open>
  C6: when the lens is resolved with a client and an active document and the server
  answers, with \<open>count\<close> the number of locations of the answer (none for \<^verbatim>\<open>null\<close>): the
  lens keeps its range and gets a command; for a count of 0 the command is not actionable
  (no command identifier, no arguments); for a count of 1 the title is "1 reference"; for
  any other count the title is the count followed by " references", the count being
  printed as its decimal digits without a leading zero; and for a count of 1 or more the
  command is \<^verbatim>\<open>editor.action.findReferences\<close> on the document at the start of the range of
  the lens.
\<close>

theorem reference_label:
  fixes send :: "'sv \<Rightarrow> lsp_request \<Rightarrow> 'loc list option awaited \<times> 'sv"
    and references :: "'loc list option"
  defines "count \<equiv> (case references of None \<Rightarrow> 0 | Some locations \<Rightarrow> length locations)"
  assumes "client_now \<noteq> None"
    and "fst (send (server w) (TextDocumentReferences (uri_toString (document_uri document))
            (start_line (lens_range codeLens)) (start_character (lens_range codeLens)) False))
          = Resolves references"
  shows "(\<exists>cmd. fst (resolveCodeLens send client_now (Some document) codeLens w)
                 = codeLens\<lparr>lens_command := Some cmd\<rparr>
          \<and> (count = 0 \<longrightarrow> command cmd = [] \<and> arguments cmd = None)
          \<and> (count = 1 \<longrightarrow> title cmd = ''1 reference'')
          \<and> (count \<noteq> 1 \<longrightarrow> title cmd = string_of_nat count @ '' references'')
          \<and> (count \<ge> 1 \<longrightarrow> command cmd = ''editor.action.findReferences''
                \<and> arguments cmd = Some (document_uri document,
                      Position (start_line (lens_range codeLens)) (start_character (lens_range codeLens)))))
     \<and> decimal_value (string_of_nat count) = count
     \<and> set (string_of_nat count) \<subseteq> set ''0123456789''
     \<and> (count \<noteq> 0 \<longrightarrow> hd (string_of_nat count) \<noteq> CHR ''0'')"
proof -
  have "\<exists>cmd. fst (resolveCodeLens send client_now (Some document) codeLens w)
                 = codeLens\<lparr>lens_command := Some cmd\<rparr>
          \<and> (count = 0 \<longrightarrow> command cmd = [] \<and> arguments cmd = None)
          \<and> (count = 1 \<longrightarrow> title cmd = ''1 reference'')
          \<and> (count \<noteq> 1 \<longrightarrow> title cmd = string_of_nat count @ '' references'')
          \<and> (count \<ge> 1 \<longrightarrow> command cmd = ''editor.action.findReferences''
                \<and> arguments cmd = Some (document_uri document,
                      Position (start_line (lens_range codeLens)) (start_character (lens_range codeLens))))"
    using assms(2,3) unfolding count_def
    by (cases "send (server w) (TextDocumentReferences (uri_toString (document_uri document))
            (start_line (lens_range codeLens)) (start_character (lens_range codeLens)) False)")
       (auto simp add: resolveCodeLens_def Let_def)
  with string_of_nat_decimal [of count] show ?thesis by blast
qed

theorem reference_label_witness:
  "fst (resolveCodeLens sample_references (Some (0::nat)) (Some (sample_document ''/proj/src/B.elm''))
          \<lparr>lens_range = VsRange 3 0 9 12, lens_command = None\<rparr> (sample_editor 0))
     = \<lparr>lens_range = VsRange 3 0 9 12,
        lens_command = Some \<lparr>title = ''0 references'', command = [], arguments = None\<rparr>\<rparr>
   \<and> fst (resolveCodeLens sample_references (Some (0::nat)) (Some (sample_document ''/proj/src/B.elm''))
          \<lparr>lens_range = VsRange 3 0 9 12, lens_command = None\<rparr> (sample_editor 1))
     = \<lparr>lens_range = VsRange 3 0 9 12,
        lens_command = Some \<lparr>title = ''1 reference'', command = ''editor.action.findReferences'',
          arguments = Some (file_uri ''/proj/src/B.elm'', Position 3 0)\<rparr>\<rparr>
   \<and> fst (resolveCodeLens sample_references (Some (0::nat)) (Some (sample_document ''/proj/src/B.elm''))
          \<lparr>lens_range = VsRange 3 0 9 12, lens_command = None\<rparr> (sample_editor 3))
     = \<lparr>lens_range = VsRange 3 0 9 12,
        lens_command = Some \<lparr>title = ''3 references'', command = ''editor.action.findReferences'',
          arguments = Some (file_uri ''/proj/src/B.elm'', Position 3 0)\<rparr>\<rparr>"
  using
    reference_label [where send = sample_references and client_now = "Some (0::nat)"
      and w = "sample_editor 0" and document = "sample_document ''/proj/src/B.elm''"
      and codeLens = "\<lparr>lens_range = VsRange 3 0 9 12, lens_command = None\<rparr>"
      and references = "Some []"]
    reference_label [where send = sample_references and client_now = "Some (0::nat)"
      and w = "sample_editor 1" and document = "sample_document ''/proj/src/B.elm''"
      and codeLens = "\<lparr>lens_range = VsRange 3 0 9 12, lens_command = None\<rparr>"
      and references = "Some [()]"]
    reference_label [where send = sample_references and client_now = "Some (0::nat)"
      and w = "sample_editor 3" and document = "sample_document ''/proj/src/B.elm''"
      and codeLens = "\<lparr>lens_range = VsRange 3 0 9 12, lens_command = None\<rparr>"
      and references = "Some [(), (), ()]"]
  by (simp add: sample_defs resolveCodeLens_def string_of_nat.simps Let_def)

text \<open>
  C9: with a client at hand, resolving a lens, whatever document it was made for, sends one
  \<^verbatim>\<open>textDocument/references\<close> request whose URI is that of the document of the active
  editor, at the start of the range of the lens and without the declaration; without a
  client or without an active editor nothing is sent and the lens gets the empty command,
  with no title and no command identifier; and when the request throws (a client that is
  not running, say) the lens gets the empty command as well.
\<close>

theorem references_request_uses_active_document:
  fixes send :: "'sv \<Rightarrow> lsp_request \<Rightarrow> 'loc list option awaited \<times> 'sv"
  shows "(client_now \<noteq> None
        \<longrightarrow> sent (snd (resolveCodeLens send client_now (Some active) codeLens w))
            = sent w @ [TextDocumentReferences (uri_toString (document_uri active))
                 (start_line (lens_range codeLens)) (start_character (lens_range codeLens)) False])
     \<and> (client_now = None \<or> activeDocument = None
        \<longrightarrow> resolveCodeLens send client_now activeDocument codeLens w
            = (codeLens\<lparr>lens_command := Some empty_command\<rparr>, w))
     \<and> (client_now \<noteq> None
          \<and> fst (send (server w) (TextDocumentReferences (uri_toString (document_uri active))
                 (start_line (lens_range codeLens)) (start_character (lens_range codeLens)) False))
              = Rejects e
        \<longrightarrow> fst (resolveCodeLens send client_now (Some active) codeLens w)
            = codeLens\<lparr>lens_command := Some empty_command\<rparr>)"
  by (cases "send (server w) (TextDocumentReferences (uri_toString (document_uri active))
            (start_line (lens_range codeLens)) (start_character (lens_range codeLens)) False)")
     (auto simp add: resolveCodeLens_def Let_def split: awaited.splits)

theorem references_request_uses_active_document_witness:
  "fst (provideCodeLenses sample_symbols (Some (0::nat)) True (sample_document ''/proj/src/A.elm'')
          (sample_editor ()))
     = [\<lparr>lens_range = VsRange 3 0 9 12, lens_command = None\<rparr>]
   \<and> sent (snd (resolveCodeLens sample_references (Some (0::nat))
          (Some (sample_document ''/proj/src/B.elm''))
          \<lparr>lens_range = VsRange 3 0 9 12, lens_command = None\<rparr> (sample_editor 2)))
     = [TextDocumentReferences ''file:///proj/src/B.elm'' 3 0 False]
   \<and> resolveCodeLens sample_references (None :: nat option) (Some (sample_document ''/proj/src/B.elm''))
          \<lparr>lens_range = VsRange 3 0 9 12, lens_command = None\<rparr> (sample_editor 2)
     = (\<lparr>lens_range = VsRange 3 0 9 12, lens_command = Some empty_command\<rparr>, sample_editor 2)
   \<and> resolveCodeLens sample_references (Some (0::nat)) None
          \<lparr>lens_range = VsRange 3 0 9 12, lens_command = None\<rparr> (sample_editor 2)
     = (\<lparr>lens_range = VsRange 3 0 9 12, lens_command = Some empty_command\<rparr>, sample_editor 2)
   \<and> fst (resolveCodeLens sample_failing (Some (0::nat)) (Some (sample_document ''/proj/src/B.elm''))
          \<lparr>lens_range = VsRange 3 0 9 12, lens_command = None\<rparr> (sample_editor 2))
     = \<lparr>lens_range = VsRange 3 0 9 12, lens_command = Some empty_command\<rparr>"
  using
    references_request_uses_active_document [where send = sample_references
      and client_now = "Some (0::nat)" and active = "sample_document ''/proj/src/B.elm''"
      and activeDocument = None
      and codeLens = "\<lparr>lens_range = VsRange 3 0 9 12, lens_command = None\<rparr>" and w = "sample_editor 2"]
    references_request_uses_active_document [where send = sample_references
      and client_now = "None :: nat option" and active = "sample_document ''/proj/src/B.elm''"
      and activeDocument = "Some (sample_document ''/proj/src/B.elm'')"
      and codeLens = "\<lparr>lens_range = VsRange 3 0 9 12, lens_command = None\<rparr>" and w = "sample_editor 2"]
    references_request_uses_active_document [where send = sample_failing
      and client_now = "Some (0::nat)" and active = "sample_document ''/proj/src/B.elm''"
      and activeDocument = None and e = "''Error: client is not running''"
      and codeLens = "\<lparr>lens_range = VsRange 3 0 9 12, lens_command = None\<rparr>" and w = "sample_editor 2"]
  by (simp add: sample_defs provideCodeLenses_def annotated_kinds_def resolveCodeLens_def Let_def)

end
